theory Spec2Isabelle
  imports Complex_Main "HOL-Library.Char_ord" "HOL-Library.List_Lexorder"
    "HOL-Library.Product_Lexorder" "HOL-Library.Multiset"
begin

section \<open>JavaScript and SQL primitives used by the services\<close>

text \<open>
  JavaScript numbers are modelled by \<open>real\<close> (measurements, prices, distances) and by
  \<open>int\<close> where the code only ever holds integers (identifiers, row limits, parsed
  dates); \<open>NaN\<close> is \<open>None\<close> of an \<open>option\<close>.  The arithmetic on prices, areas and
  percentages is that of the real numbers; the distances of the searches are computed as
  the code computes them, each operation rounded to a double (\<open>double_round\<close>).  Strings are \<open>char list\<close>, one \<open>char\<close> per
  code unit, which is exact for the ASCII data the services handle.
\<close>

definition js_whitespace :: "char \<Rightarrow> bool" where
  "js_whitespace c \<longleftrightarrow>
     (of_char c :: nat) \<in> set [0x20, 0x09, 0x0A, 0x0B, 0x0C, 0x0D, 0xA0]"

definition js_trim :: "string \<Rightarrow> string" where
  "js_trim s = rev (dropWhile js_whitespace (rev (dropWhile js_whitespace s)))"

text \<open>\<open>s.substring(a, b)\<close> for \<open>a \<le> b\<close>, the only way the services call it.\<close>

definition substring :: "nat \<Rightarrow> nat \<Rightarrow> string \<Rightarrow> string" where
  "substring a b s = take (b - a) (drop a s)"

definition digit_char :: "nat \<Rightarrow> char" where
  "digit_char n = char_of (48 + n)"

text \<open>The value of a character as a digit of the given radix (10 or 16), if it is one.\<close>

definition digit_of :: "nat \<Rightarrow> char \<Rightarrow> nat option" where
  "digit_of R c =
     (let k = (of_char c :: nat) in
      if 48 \<le> k \<and> k \<le> 57 then Some (k - 48)
      else if R = 16 \<and> 97 \<le> k \<and> k \<le> 102 then Some (k - 87)
      else if R = 16 \<and> 65 \<le> k \<and> k \<le> 70 then Some (k - 55)
      else None)"

text \<open>
  \<open>parseInt(s)\<close> without a radix: leading white space is skipped, one sign is read, a
  \<open>0x\<close> prefix selects radix 16, and the longest run of digits is the value; no digit
  at all gives \<open>NaN\<close>.
\<close>

definition js_parseInt :: "string \<Rightarrow> int option" where
  "js_parseInt inp =
     (let s0 = dropWhile js_whitespace inp;
          neg = (take 1 s0 = ''-'');
          s1 = (if take 1 s0 = ''-'' \<or> take 1 s0 = ''+'' then drop 1 s0 else s0);
          hex = (take 2 s1 = ''0x'' \<or> take 2 s1 = ''0X'');
          s2 = (if hex then drop 2 s1 else s1);
          R = (if hex then 16 else 10);
          z = takeWhile (\<lambda>c. digit_of R c \<noteq> None) s2;
          v = int (foldl (\<lambda>a c. a * R + the (digit_of R c)) 0 z)
      in if z = [] then None else Some (if neg then - v else v))"

fun nat_digits :: "nat \<Rightarrow> string" where
  "nat_digits n =
     (if n < 10 then [digit_char n] else nat_digits (n div 10) @ [digit_char (n mod 10)])"

declare nat_digits.simps [simp del]

definition int_toString :: "int \<Rightarrow> string" where
  "int_toString i = (if i < 0 then CHR ''-'' # nat_digits (nat (- i)) else nat_digits (nat i))"

text \<open>\<open>String(n)\<close> of an integral number or of \<open>NaN\<close>.\<close>

definition num_toString :: "int option \<Rightarrow> string" where
  "num_toString n = (case n of None \<Rightarrow> ''NaN'' | Some i \<Rightarrow> int_toString i)"


text \<open>
  SQL as the queries use it.  \<open>LIMIT n\<close> with a negative \<open>n\<close> puts no bound on the
  number of rows; \<open>xs.slice(0, n)\<close> with a negative \<open>n\<close> drops the last \<open>-n\<close> elements.
\<close>

definition sql_limit :: "int \<Rightarrow> 'a list \<Rightarrow> 'a list" where
  "sql_limit n rows = (if n < 0 then rows else take (nat n) rows)"

definition js_slice0 :: "int \<Rightarrow> 'a list \<Rightarrow> 'a list" where
  "js_slice0 n xs = (if n < 0 then take (length xs - nat (- n)) xs else take (nat n) xs)"

text \<open>\<open>column IN (?, ..., ?)\<close> on a nullable text column: \<open>NULL\<close> is in no list.\<close>

definition sql_in :: "string option \<Rightarrow> string list \<Rightarrow> bool" where
  "sql_in v vs = (case v of None \<Rightarrow> False | Some s \<Rightarrow> s \<in> set vs)"

text \<open>
  \<open>CAST(SUBSTR(t, -4) AS INTEGER)\<close>: the last four characters, then the longest
  prefix that reads as an integer after leading white space, and 0 when there is none.
\<close>

definition sql_substr_last4 :: "string \<Rightarrow> string" where
  "sql_substr_last4 s = drop (length s - 4) s"

definition sql_space :: "char \<Rightarrow> bool" where
  "sql_space c \<longleftrightarrow> (of_char c :: nat) \<in> set [0x20, 0x09, 0x0A, 0x0B, 0x0C, 0x0D]"

definition sql_cast_integer :: "string \<Rightarrow> int" where
  "sql_cast_integer s =
     (let s0 = dropWhile sql_space s;
          neg = (take 1 s0 = ''-'');
          s1 = (if take 1 s0 = ''-'' \<or> take 1 s0 = ''+'' then drop 1 s0 else s0);
          z = takeWhile (\<lambda>c. digit_of 10 c \<noteq> None) s1;
          v = int (foldl (\<lambda>a c. a * 10 + the (digit_of 10 c)) 0 z)
      in if neg then - v else v)"

text \<open>\<open>ORDER BY key DESC\<close>, rows of equal key kept in the order they were read.\<close>

definition order_by_desc :: "('a \<Rightarrow> 'k::linorder) \<Rightarrow> 'a list \<Rightarrow> 'a list" where
  "order_by_desc key rows = rev (sort_key key (rev rows))"

text \<open>JavaScript truthiness of an optional number, string and array.\<close>

definition truthy_num :: "real option \<Rightarrow> bool" where
  "truthy_num v = (case v of None \<Rightarrow> False | Some n \<Rightarrow> n \<noteq> 0)"

definition truthy_str :: "string option \<Rightarrow> bool" where
  "truthy_str v = (case v of None \<Rightarrow> False | Some s \<Rightarrow> s \<noteq> [])"

definition truthy_arr :: "'a list option \<Rightarrow> bool" where
  "truthy_arr v = (v \<noteq> None)"

text \<open>\<open>xs && xs.length > 0\<close>\<close>

definition nonempty_arr :: "'a list option \<Rightarrow> bool" where
  "nonempty_arr v = (case v of None \<Rightarrow> False | Some xs \<Rightarrow> xs \<noteq> [])"

text \<open>\<open>Math.round\<close> rounds halves up.\<close>

definition js_round :: "real \<Rightarrow> int" where
  "js_round v = \<lfloor>v + 1 / 2\<rfloor>"

text \<open>
  \<open>Array.prototype.sort\<close> with a comparator: a stable insertion sort in which \<open>x\<close> stays
  before \<open>y\<close> unless the comparator gives a positive number; \<open>NaN\<close> counts as 0.
\<close>

definition cmp_positive :: "int option \<Rightarrow> bool" where
  "cmp_positive v = (case v of None \<Rightarrow> False | Some n \<Rightarrow> 0 < n)"

fun js_insert :: "('a \<Rightarrow> 'a \<Rightarrow> int option) \<Rightarrow> 'a \<Rightarrow> 'a list \<Rightarrow> 'a list" where
  "js_insert cmp v [] = [v]"
| "js_insert cmp v (w # ws) =
     (if cmp_positive (cmp v w) then w # js_insert cmp v ws else v # w # ws)"

definition js_sort :: "('a \<Rightarrow> 'a \<Rightarrow> int option) \<Rightarrow> 'a list \<Rightarrow> 'a list" where
  "js_sort cmp xs = foldr (js_insert cmp) xs []"

text \<open>\<open>a - b\<close> and \<open>a !== b\<close> on numbers that may be \<open>NaN\<close>.\<close>

definition num_minus :: "int option \<Rightarrow> int option \<Rightarrow> int option" where
  "num_minus a b = (case (a, b) of (Some m, Some n) \<Rightarrow> Some (m - n) | _ \<Rightarrow> None)"

definition strict_neq :: "int option \<Rightarrow> int option \<Rightarrow> bool" where
  "strict_neq a b = (a = None \<or> b = None \<or> a \<noteq> b)"

text \<open>
  The numbers of SQLite and of JavaScript are IEEE 754 doubles: 53 significant bits,
  binary exponents from \<open>-1022\<close>, gradual underflow in steps of \<open>2 powi - 1074\<close>.  An
  arithmetic operation returns the double nearest to the exact result, and of two that are
  equally near the one whose last bit is even.  \<open>double_round v\<close> is that double for an
  exact result \<open>v\<close> of magnitude below \<open>2 ^ 1024\<close>; beyond it the code has an infinity,
  which coordinates and distances in metres do not come near.
\<close>

definition round_half_even :: "real \<Rightarrow> int" where
  "round_half_even y =
     (let f = \<lfloor>y\<rfloor>
      in if y - of_int f < 1 / 2 then f
         else if 1 / 2 < y - of_int f then f + 1
         else if even f then f else f + 1)"

text \<open>The exponent of the last bit of the doubles around \<open>v\<close>.\<close>

definition double_exponent :: "real \<Rightarrow> int" where
  "double_exponent v = max (\<lfloor>log 2 \<bar>v\<bar>\<rfloor> - 52) (- 1074)"

definition double_round :: "real \<Rightarrow> real" where
  "double_round v =
     (if v = 0 then 0
      else of_int (round_half_even (v / 2 powi double_exponent v)) * 2 powi double_exponent v)"


section \<open>The property database (schema.sql, types)\<close>

text \<open>
  The three tables, each as the list of its rows in the order the engine reads them.
  That order is the engine's: the schema indexes \<open>properties\<close> on \<open>(x, y)\<close>, and SQL
  leaves the order of rows that are equal on the \<open>ORDER BY\<close> keys open.
\<close>

record PropertyRecord =
  p_id :: int
  p_project :: string
  p_street :: string
  p_x :: real
  p_y :: real
  p_market_segment :: "string option"
  p_district :: "string option"

record TransactionRecord =
  t_id :: int
  t_property_id :: int
  t_price :: real
  t_area :: real
  t_contract_date :: string
  t_property_type :: string
  t_tenure :: "string option"
  t_type_of_sale :: "string option"

record RentalRecord =
  r_id :: int
  r_property_id :: int
  r_rent :: real
  r_lease_date :: string

record Database =
  properties :: "PropertyRecord list"
  transactions :: "TransactionRecord list"
  rentals :: "RentalRecord list"

record Coordinates =
  coord_x :: real
  coord_y :: real

record PropertySearchOptions =
  maxDistanceMeters :: "real option"
  minPrice :: "real option"
  maxPrice :: "real option"
  propertyTypes :: "string list option"
  marketSegments :: "string list option"
  districts :: "string list option"
  fromDate :: "string option"
  toDate :: "string option"
  minCompletionYear :: "real option"
  maxPropertyAge :: "real option"
  saleTypes :: "string list option"
  limit :: "int option"

record QuarterlyPriceTrend =
  quarter :: string
  avgPricePerSqf :: int
  transactionCount :: nat

record RecentRentalInfo =
  avgRent :: int
  rental_quarter :: string
  rentalCount :: nat

text \<open>A row of the search query: the property columns and the computed distance.\<close>

record PropertyRow = PropertyRecord +
  distance :: real

record PropertySearchResult =
  property :: PropertyRow
  recentTransactions :: "TransactionRecord list"
  recentRentals :: "RentalRecord list"
  result_distance :: real
  pricePerSqfTrend :: "QuarterlyPriceTrend list"
  latestPrice :: "real option"
  recentRentalInfo :: "RecentRentalInfo option"

record PropertySearchResponse =
  results :: "PropertySearchResult list"
  truncated :: bool
  totalAvailable :: "nat option"


section \<open>Search bounds (utils/distance.ts)\<close>

record SearchBounds =
  minX :: real
  maxX :: real
  minY :: real
  maxY :: real

text \<open>\<open>center.x - radiusMeters\<close> and the three others, in doubles.\<close>

definition createSearchBounds :: "real \<Rightarrow> real \<Rightarrow> real \<Rightarrow> SearchBounds" where
  "createSearchBounds center_x center_y radiusMeters =
     \<lparr> minX = double_round (center_x - radiusMeters),
       maxX = double_round (center_x + radiusMeters),
       minY = double_round (center_y - radiusMeters),
       maxY = double_round (center_y + radiusMeters) \<rparr>"

text \<open>
  \<open>SQRT(POWER(p.x - ?, 2) + POWER(p.y - ?, 2))\<close>, as SQLite computes it: the two
  differences, the two squares, the sum and the square root are each rounded to a double
  (\<open>POWER(v, 2)\<close> is the \<open>pow\<close> of the C library, taken as the double nearest to the
  square).  The value is the Euclidean distance up to these roundings.
\<close>

definition sql_distance :: "real \<Rightarrow> real \<Rightarrow> real \<Rightarrow> real \<Rightarrow> real" where
  "sql_distance px py center_x center_y =
     double_round (sqrt (double_round
       (double_round ((double_round (px - center_x))\<^sup>2)
        + double_round ((double_round (py - center_y))\<^sup>2))))"

text \<open>\<open>p.x BETWEEN ? AND ? AND p.y BETWEEN ? AND ?\<close>\<close>

definition in_bounds :: "SearchBounds \<Rightarrow> real \<Rightarrow> real \<Rightarrow> bool" where
  "in_bounds b px py \<longleftrightarrow> minX b \<le> px \<and> px \<le> maxX b \<and> minY b \<le> py \<and> py \<le> maxY b"


section \<open>Date decoding: \<open>parseToQuarter\<close> (databaseManager.ts)\<close>

text \<open>
  The local values of \<open>parseToQuarter\<close>, each as a function of the date string:
  \<open>month\<close>, \<open>year\<close>, \<open>fullYear\<close> and \<open>quarter\<close>.  A comparison with \<open>NaN\<close> is false and
  arithmetic on \<open>NaN\<close> is \<open>NaN\<close>.
\<close>

definition month_of :: "string \<Rightarrow> int option" where
  "month_of mmyyDate = js_parseInt (substring 0 2 mmyyDate)"

definition year_of :: "string \<Rightarrow> int option" where
  "year_of mmyyDate = js_parseInt (substring 2 4 mmyyDate)"

definition fullYear_of :: "string \<Rightarrow> int option" where
  "fullYear_of mmyyDate =
     (case year_of mmyyDate of
        None \<Rightarrow> None
      | Some yv \<Rightarrow> Some (if yv < 50 then 2000 + yv else 1900 + yv))"

definition quarter_of :: "string \<Rightarrow> int option" where
  "quarter_of mmyyDate =
     (case month_of mmyyDate of
        None \<Rightarrow> None
      | Some m \<Rightarrow> Some \<lceil>real_of_int m / 3\<rceil>)"

definition parseToQuarter :: "string \<Rightarrow> string" where
  "parseToQuarter mmyyDate =
     ''Q'' @ num_toString (quarter_of mmyyDate) @ [CHR 0x27]
       @ drop 2 (num_toString (fullYear_of mmyyDate))"


section \<open>Trend enrichment (databaseManager.ts)\<close>

text \<open>
  The year and quarter that the two sort comparators read back from a quarter label.
  For a label such as \<open>Q1'25\<close> the year is parsed from \<open>'25\<close>, which is \<open>NaN\<close>.
\<close>

definition quarter_compare_asc :: "string \<Rightarrow> string \<Rightarrow> int option" where
  "quarter_compare_asc a b =
     (let aYear = js_parseInt (drop 2 a);
          bYear = js_parseInt (drop 2 b);
          aQ = js_parseInt (substring 1 2 a);
          bQ = js_parseInt (substring 1 2 b)
      in if strict_neq aYear bYear then num_minus aYear bYear else num_minus aQ bQ)"

definition quarter_compare_desc :: "string \<Rightarrow> string \<Rightarrow> int option" where
  "quarter_compare_desc a b =
     (let aYear = js_parseInt (drop 2 a);
          bYear = js_parseInt (drop 2 b);
          aQ = js_parseInt (substring 1 2 a);
          bQ = js_parseInt (substring 1 2 b)
      in if strict_neq aYear bYear then num_minus bYear aYear else num_minus bQ aQ)"

definition pricePerSqf :: "TransactionRecord \<Rightarrow> real" where
  "pricePerSqf t = t_price t / (t_area t * (10764 / 1000))"

text \<open>
  One round of the \<open>forEach\<close> over the valid transactions.  \<open>quarterlyData\<close> is the
  \<open>Map\<close> in insertion order: quarter label, count and sum of the unit prices.
\<close>

definition quarterly_step ::
  "(string \<times> nat \<times> real) list \<Rightarrow> TransactionRecord \<Rightarrow> (string \<times> nat \<times> real) list" where
  "quarterly_step quarterlyData t =
     (let q = parseToQuarter (t_contract_date t);
          psf = pricePerSqf t
      in if psf < 200 \<or> 10000 < psf then quarterlyData
         else
           let d = (if map_of quarterlyData q = None then quarterlyData @ [(q, 0, 0)]
                    else quarterlyData)
           in map (\<lambda>(k, c, s). if k = q then (k, Suc c, s + psf) else (k, c, s)) d)"

definition calculatePriceTrends :: "TransactionRecord list \<Rightarrow> QuarterlyPriceTrend list" where
  "calculatePriceTrends txns =
     (if txns = [] then []
      else
        let validTransactions = filter (\<lambda>t. 0 < t_price t \<and> 0 < t_area t) txns
        in if validTransactions = [] then []
           else
             let quarterlyData = foldl quarterly_step [] validTransactions;
                 trends = map (\<lambda>(k, c, s).
                            \<lparr> quarter = k, avgPricePerSqf = js_round (s / real c),
                              transactionCount = c \<rparr>) quarterlyData;
                 sorted = js_sort (\<lambda>a b. quarter_compare_asc (quarter a) (quarter b)) trends
             in drop (length sorted - 20) sorted)"

definition rental_step ::
  "(string \<times> real list \<times> nat) list \<Rightarrow> RentalRecord \<Rightarrow> (string \<times> real list \<times> nat) list" where
  "rental_step quarterlyRentals r =
     (let q = parseToQuarter (r_lease_date r);
          d = (if map_of quarterlyRentals q = None then quarterlyRentals @ [(q, [], 0)]
               else quarterlyRentals)
      in map (\<lambda>(k, rents, c). if k = q then (k, rents @ [r_rent r], Suc c) else (k, rents, c)) d)"

definition getRecentRentalInfo :: "RentalRecord list \<Rightarrow> RecentRentalInfo option" where
  "getRecentRentalInfo rs =
     (if rs = [] then None
      else
        let validRentals = filter (\<lambda>r. 0 < r_rent r) rs
        in if validRentals = [] then None
           else
             let quarterlyRentals = foldl rental_step [] validRentals;
                 quarters = js_sort quarter_compare_desc (map fst quarterlyRentals)
             in case quarters of
                  [] \<Rightarrow> None
                | mostRecentQuarter # _ \<Rightarrow>
                    (case map_of quarterlyRentals mostRecentQuarter of
                       None \<Rightarrow> None
                     | Some (rents, c) \<Rightarrow>
                         Some \<lparr> avgRent = js_round (foldl (+) 0 rents / real c),
                                rental_quarter = mostRecentQuarter, rentalCount = c \<rparr>))"

text \<open>The two queries of \<open>enrichPropertyData\<close>: the ten latest rows by date text.\<close>

definition recent_transactions_query :: "Database \<Rightarrow> int \<Rightarrow> TransactionRecord list" where
  "recent_transactions_query db pid =
     sql_limit 10 (order_by_desc t_contract_date
       (filter (\<lambda>t. t_property_id t = pid) (transactions db)))"

definition recent_rentals_query :: "Database \<Rightarrow> int \<Rightarrow> RentalRecord list" where
  "recent_rentals_query db pid =
     sql_limit 10 (order_by_desc r_lease_date
       (filter (\<lambda>r. r_property_id r = pid) (rentals db)))"

definition enrichPropertyData :: "Database \<Rightarrow> PropertyRow \<Rightarrow> PropertySearchResult" where
  "enrichPropertyData db prop =
     (let txns = recent_transactions_query db (p_id prop);
          rents = recent_rentals_query db (p_id prop)
      in \<lparr> property = prop,
           recentTransactions = txns,
           recentRentals = rents,
           result_distance = distance prop,
           pricePerSqfTrend = calculatePriceTrends txns,
           latestPrice = (case txns of [] \<Rightarrow> None | t # _ \<Rightarrow> Some (t_price t)),
           recentRentalInfo = getRecentRentalInfo rents \<rparr>)"


section \<open>Exact-radius search: \<open>searchPropertiesNear\<close> (databaseManager.ts)\<close>

definition tenure_year_at_least :: "string option \<Rightarrow> real \<Rightarrow> bool" where
  "tenure_year_at_least tenure v =
     (case tenure of
        None \<Rightarrow> False
      | Some s \<Rightarrow> v \<le> real_of_int (sql_cast_integer (sql_substr_last4 s)))"

text \<open>The \<open>EXISTS\<close> sub-query: one transaction of the property meets every active filter.\<close>

definition transaction_matches :: "PropertySearchOptions \<Rightarrow> int \<Rightarrow> TransactionRecord \<Rightarrow> bool" where
  "transaction_matches opts pid t \<longleftrightarrow>
     t_property_id t = pid
     \<and> (if truthy_num (minPrice opts) then the (minPrice opts) \<le> t_price t else True)
     \<and> (if truthy_num (maxPrice opts) then t_price t \<le> the (maxPrice opts) else True)
     \<and> (if nonempty_arr (propertyTypes opts)
         then t_property_type t \<in> set (the (propertyTypes opts)) else True)
     \<and> (if truthy_str (fromDate opts) then the (fromDate opts) \<le> t_contract_date t else True)
     \<and> (if truthy_str (toDate opts) then t_contract_date t \<le> the (toDate opts) else True)
     \<and> (if truthy_num (minCompletionYear opts)
         then tenure_year_at_least (t_tenure t) (the (minCompletionYear opts)) else True)
     \<and> (if truthy_num (maxPropertyAge opts)
         then tenure_year_at_least (t_tenure t) (2025 - the (maxPropertyAge opts)) else True)
     \<and> (if nonempty_arr (saleTypes opts)
         then sql_in (t_type_of_sale t) (the (saleTypes opts)) else True)"

definition transaction_filters_active :: "PropertySearchOptions \<Rightarrow> bool" where
  "transaction_filters_active opts \<longleftrightarrow>
     truthy_num (minPrice opts) \<or> truthy_num (maxPrice opts) \<or> truthy_arr (propertyTypes opts)
     \<or> truthy_str (fromDate opts) \<or> truthy_str (toDate opts)
     \<or> truthy_num (minCompletionYear opts) \<or> truthy_num (maxPropertyAge opts)
     \<or> truthy_arr (saleTypes opts)"

definition radius_of :: "PropertySearchOptions \<Rightarrow> real" where
  "radius_of opts = (case maxDistanceMeters opts of None \<Rightarrow> 2000 | Some r \<Rightarrow> r)"

definition limit_of :: "PropertySearchOptions \<Rightarrow> int" where
  "limit_of opts = (case limit opts of None \<Rightarrow> 50 | Some n \<Rightarrow> n)"

definition near_where ::
  "Database \<Rightarrow> Coordinates \<Rightarrow> PropertySearchOptions \<Rightarrow> PropertyRecord \<Rightarrow> bool" where
  "near_where db center opts p \<longleftrightarrow>
     in_bounds (createSearchBounds (coord_x center) (coord_y center) (radius_of opts))
       (p_x p) (p_y p)
     \<and> sql_distance (p_x p) (p_y p) (coord_x center) (coord_y center) \<le> radius_of opts
     \<and> (if nonempty_arr (marketSegments opts)
         then sql_in (p_market_segment p) (the (marketSegments opts)) else True)
     \<and> (if nonempty_arr (districts opts)
         then sql_in (p_district p) (the (districts opts)) else True)
     \<and> (if transaction_filters_active opts
         then list_ex (transaction_matches opts (p_id p)) (transactions db) else True)"

definition near_row :: "Coordinates \<Rightarrow> PropertyRecord \<Rightarrow> PropertyRow" where
  "near_row center p =
     \<lparr> p_id = p_id p, p_project = p_project p, p_street = p_street p, p_x = p_x p,
       p_y = p_y p, p_market_segment = p_market_segment p, p_district = p_district p,
       distance = sql_distance (p_x p) (p_y p) (coord_x center) (coord_y center) \<rparr>"

text \<open>The query, run with the given \<open>LIMIT\<close>.\<close>

definition near_query ::
  "Database \<Rightarrow> Coordinates \<Rightarrow> PropertySearchOptions \<Rightarrow> int \<Rightarrow> PropertyRow list" where
  "near_query db center opts n =
     sql_limit n (sort_key distance
       (remdups (map (near_row center) (filter (near_where db center opts) (properties db)))))"

definition searchPropertiesNear ::
  "Database \<Rightarrow> Coordinates \<Rightarrow> PropertySearchOptions \<Rightarrow> PropertySearchResponse" where
  "searchPropertiesNear db center opts =
     (let lim = limit_of opts;
          rows = near_query db center opts lim;
          checkProperties = near_query db center opts (lim + 1);
          trunc = (lim < int (length checkProperties));
          actualResults = js_slice0 lim rows
      in \<lparr> results = map (enrichPropertyData db) actualResults,
           truncated = trunc,
           totalAvailable = (if trunc then None else Some (length actualResults)) \<rparr>)"


section \<open>Multi-center search: \<open>searchPropertiesNearMultiple\<close> (databaseManager.ts)\<close>

record SearchCenter = Coordinates +
  name :: string
  radius :: "real option"

record MultiCenterRow = PropertyRecord +
  search_center :: string
  distance_to_center :: real

record MultiCenterResult = PropertySearchResult +
  searchCenter :: string
  distanceToCenter :: real

record MultiCenterResponse =
  multi_results :: "MultiCenterResult list"
  multi_truncated :: bool
  multi_totalAvailable :: "nat option"

text \<open>\<open>center.radius || 1200\<close>\<close>

definition center_radius :: "SearchCenter \<Rightarrow> real" where
  "center_radius c = (case radius c of None \<Rightarrow> 1200 | Some r \<Rightarrow> if r = 0 then 1200 else r)"

definition multi_limit_of :: "PropertySearchOptions \<Rightarrow> int" where
  "multi_limit_of opts = (case limit opts of None \<Rightarrow> 100 | Some n \<Rightarrow> n)"

definition center_row :: "SearchCenter \<Rightarrow> PropertyRecord \<Rightarrow> MultiCenterRow" where
  "center_row c p =
     \<lparr> p_id = p_id p, p_project = p_project p, p_street = p_street p, p_x = p_x p,
       p_y = p_y p, p_market_segment = p_market_segment p, p_district = p_district p,
       search_center = name c,
       distance_to_center = sql_distance (p_x p) (p_y p) (coord_x c) (coord_y c) \<rparr>"

definition in_center_disk :: "SearchCenter \<Rightarrow> real \<Rightarrow> real \<Rightarrow> bool" where
  "in_center_disk c px py \<longleftrightarrow>
     in_bounds (createSearchBounds (coord_x c) (coord_y c) (center_radius c)) px py
     \<and> sql_distance px py (coord_x c) (coord_y c) \<le> center_radius c"

text \<open>One branch of the \<open>UNION ALL\<close>, and the whole \<open>multi_center_results\<close>.\<close>

definition center_query :: "Database \<Rightarrow> SearchCenter \<Rightarrow> MultiCenterRow list" where
  "center_query db c =
     remdups (map (center_row c) (filter (\<lambda>p. in_center_disk c (p_x p) (p_y p)) (properties db)))"

definition multi_center_results :: "Database \<Rightarrow> SearchCenter list \<Rightarrow> MultiCenterRow list" where
  "multi_center_results db centers = concat (map (center_query db) centers)"

text \<open>
  \<open>ROW_NUMBER() OVER (PARTITION BY id ORDER BY distance_to_center ASC)\<close> and
  \<open>WHERE closest_rank = 1\<close>.  The window orders a partition by distance only.  SQLite
  reads the branches of the \<open>UNION ALL\<close> in the order of the centers, and its sorter keeps
  rows of equal key in the order in which they arrive: rows of one property at the same
  distance stay in the order of the centers.  \<open>peer_order\<close> is the order in which the rows
  reach the sorter, a permutation of its argument; for SQLite it is \<open>\<lambda>rows. rows\<close>.  What
  does not depend on that order is stated for every \<open>peer_order\<close>.  \<open>first_per_id\<close>
  keeps the rows numbered 1.
\<close>

fun first_per_id :: "int list \<Rightarrow> MultiCenterRow list \<Rightarrow> MultiCenterRow list" where
  "first_per_id seen [] = []"
| "first_per_id seen (r # rs) =
     (if p_id r \<in> set seen then first_per_id seen rs
      else r # first_per_id (p_id r # seen) rs)"

definition closest_assignment ::
  "(MultiCenterRow list \<Rightarrow> MultiCenterRow list) \<Rightarrow> MultiCenterRow list \<Rightarrow> MultiCenterRow list" where
  "closest_assignment peer_order rows =
     first_per_id [] (sort_key (\<lambda>r. (p_id r, distance_to_center r)) (peer_order rows))"

text \<open>
  The sub-query of the multi-center filter compares \<open>t.property_id\<close> with an unqualified
  \<open>id\<close>, which inside the sub-query is the transaction's own \<open>id\<close> column.
\<close>

definition multi_transaction_matches :: "PropertySearchOptions \<Rightarrow> TransactionRecord \<Rightarrow> bool" where
  "multi_transaction_matches opts t \<longleftrightarrow>
     t_property_id t = t_id t
     \<and> (if truthy_num (minPrice opts) then the (minPrice opts) \<le> t_price t else True)
     \<and> (if truthy_num (maxPrice opts) then t_price t \<le> the (maxPrice opts) else True)
     \<and> (if nonempty_arr (propertyTypes opts)
         then t_property_type t \<in> set (the (propertyTypes opts)) else True)
     \<and> (if truthy_str (fromDate opts) then the (fromDate opts) \<le> t_contract_date t else True)
     \<and> (if truthy_str (toDate opts) then t_contract_date t \<le> the (toDate opts) else True)"

definition multi_where :: "Database \<Rightarrow> PropertySearchOptions \<Rightarrow> MultiCenterRow \<Rightarrow> bool" where
  "multi_where db opts r \<longleftrightarrow>
     (if nonempty_arr (marketSegments opts)
      then sql_in (p_market_segment r) (the (marketSegments opts)) else True)
     \<and> (if nonempty_arr (districts opts)
         then sql_in (p_district r) (the (districts opts)) else True)
     \<and> (if truthy_num (minPrice opts) \<or> truthy_num (maxPrice opts)
            \<or> truthy_arr (propertyTypes opts) \<or> truthy_str (fromDate opts)
            \<or> truthy_str (toDate opts)
         then list_ex (multi_transaction_matches opts) (transactions db) else True)"

definition multi_query ::
  "(MultiCenterRow list \<Rightarrow> MultiCenterRow list) \<Rightarrow> Database \<Rightarrow> SearchCenter list
     \<Rightarrow> PropertySearchOptions \<Rightarrow> int \<Rightarrow> MultiCenterRow list" where
  "multi_query peer_order db centers opts n =
     sql_limit n (sort_key (\<lambda>r. (search_center r, distance_to_center r))
       (filter (multi_where db opts)
         (closest_assignment peer_order (multi_center_results db centers))))"

definition multi_enrich :: "Database \<Rightarrow> MultiCenterRow \<Rightarrow> MultiCenterResult" where
  "multi_enrich db r =
     PropertySearchResult.extend
       (enrichPropertyData db
          \<lparr> p_id = p_id r, p_project = p_project r, p_street = p_street r, p_x = p_x r,
            p_y = p_y r, p_market_segment = p_market_segment r, p_district = p_district r,
            distance = distance_to_center r \<rparr>)
       (MultiCenterResult.fields (search_center r) (distance_to_center r))"

definition searchPropertiesNearMultiple ::
  "(MultiCenterRow list \<Rightarrow> MultiCenterRow list) \<Rightarrow> Database \<Rightarrow> SearchCenter list
     \<Rightarrow> PropertySearchOptions \<Rightarrow> MultiCenterResponse" where
  "searchPropertiesNearMultiple peer_order db centers opts =
     (let lim = multi_limit_of opts;
          rows = multi_query peer_order db centers opts lim;
          checkProperties = multi_query peer_order db centers opts (lim + 1);
          trunc = (lim < int (length checkProperties));
          actualResults = js_slice0 lim rows
      in \<lparr> multi_results = map (multi_enrich db) actualResults,
           multi_truncated = trunc,
           multi_totalAvailable = (if trunc then None else Some (length actualResults)) \<rparr>)"


section \<open>Station deduplication (utils/deduplication.ts)\<close>

text \<open>
  The regular expressions of this file are sequences of single characters, character
  classes and repeated character classes.  A pattern is the list of its items: \<open>One p\<close>
  is one character of the class \<open>p\<close>, \<open>Many p\<close> any number of them.  \<open>matches r s\<close>
  holds when the whole of \<open>s\<close> matches \<open>r\<close>.
\<close>

datatype item = One "char \<Rightarrow> bool" | Many "char \<Rightarrow> bool"

fun matches :: "item list \<Rightarrow> string \<Rightarrow> bool" where
  "matches [] s = (s = [])"
| "matches (One p # r) [] = False"
| "matches (One p # r) (c # cs) = (p c \<and> matches r cs)"
| "matches (Many p # r) [] = matches r []"
| "matches (Many p # r) (c # cs) = (matches r (c # cs) \<or> (p c \<and> matches (Many p # r) cs))"

text \<open>\<open>/r$/.test(s)\<close>: some suffix of \<open>s\<close> matches \<open>r\<close>.\<close>

definition re_test_end :: "item list \<Rightarrow> string \<Rightarrow> bool" where
  "re_test_end r s = list_ex (\<lambda>i. matches r (drop i s)) [0..<Suc (length s)]"

text \<open>\<open>s.replace(/r$/, '')\<close>: the leftmost suffix of \<open>s\<close> that matches \<open>r\<close> is removed.\<close>

definition re_replace_end :: "item list \<Rightarrow> string \<Rightarrow> string" where
  "re_replace_end r s =
     (case find (\<lambda>i. matches r (drop i s)) [0..<Suc (length s)] of
        None \<Rightarrow> s
      | Some i \<Rightarrow> take i s)"

definition upper_letter :: "char \<Rightarrow> bool" where
  "upper_letter c \<longleftrightarrow> 65 \<le> (of_char c :: nat) \<and> (of_char c :: nat) \<le> 90"

definition lower_letter :: "char \<Rightarrow> bool" where
  "lower_letter c \<longleftrightarrow> 97 \<le> (of_char c :: nat) \<and> (of_char c :: nat) \<le> 122"

definition any_letter :: "char \<Rightarrow> bool" where
  "any_letter c \<longleftrightarrow> upper_letter c \<or> lower_letter c"

definition decimal_digit :: "char \<Rightarrow> bool" where
  "decimal_digit c \<longleftrightarrow> 48 \<le> (of_char c :: nat) \<and> (of_char c :: nat) \<le> 57"

text \<open>The class \<open>.\<close>: any character but a line terminator.\<close>

definition not_newline :: "char \<Rightarrow> bool" where
  "not_newline c \<longleftrightarrow> (of_char c :: nat) \<noteq> 10 \<and> (of_char c :: nat) \<noteq> 13"

definition to_upper :: "char \<Rightarrow> char" where
  "to_upper c = (if lower_letter c then char_of ((of_char c :: nat) - 32) else c)"

text \<open>
  \<open>s.toUpperCase()\<close>.  Of the characters below 256 only the sharp s becomes ASCII
  (\<open>SS\<close>); the other characters outside ASCII stay outside ASCII, which is all the patterns
  can see of them.
\<close>

definition js_toUpperCase :: "string \<Rightarrow> string" where
  "js_toUpperCase s = concat (map (\<lambda>c. if c = CHR 0xDF then ''SS'' else [to_upper c]) s)"

text \<open>
  A literal, a literal under the flag \<open>i\<close> (written in upper case), and one or more
  characters of a class.
\<close>

definition lit :: "string \<Rightarrow> item list" where
  "lit s = map (\<lambda>c. One (\<lambda>d. d = c)) s"

definition lit_i :: "string \<Rightarrow> item list" where
  "lit_i s = map (\<lambda>c. One (\<lambda>d. to_upper d = c)) s"

definition plus :: "(char \<Rightarrow> bool) \<Rightarrow> item list" where
  "plus p = [One p, Many p]"

text \<open>\<open>/\<bsol>s+MRT\<bsol>s+STATION.*$/i\<close>, \<open>/\<bsol>s+EXIT\<bsol>s+[A-Z]$/i\<close> and \<open>/\<bsol>s+\<bsol>([A-Z]{2}\<bsol>d+\<bsol>)$/i\<close>\<close>

definition re_mrt_station_tail :: "item list" where
  "re_mrt_station_tail =
     plus js_whitespace @ lit_i ''MRT'' @ plus js_whitespace @ lit_i ''STATION''
       @ [Many not_newline]"

definition re_exit_tail :: "item list" where
  "re_exit_tail =
     plus js_whitespace @ lit_i ''EXIT'' @ plus js_whitespace @ [One any_letter]"

definition re_line_code_tail :: "item list" where
  "re_line_code_tail =
     plus js_whitespace @ lit ''('' @ [One any_letter, One any_letter] @ plus decimal_digit
       @ lit '')''"

definition extractBaseName :: "string \<Rightarrow> string" where
  "extractBaseName stationName =
     js_trim (re_replace_end re_line_code_tail
       (re_replace_end re_exit_tail (re_replace_end re_mrt_station_tail stationName)))"

text \<open>
  \<open>/^[A-Z\<bsol>s-]+MRT\<bsol>s+STATION$/\<close>, \<open>/\<bsol>([A-Z]{2}\<bsol>d+\<bsol>)$/\<close>, \<open>/EXIT\<bsol>s+A$/\<close> and
  \<open>/EXIT\<bsol>s+[B-Z]$/\<close>
\<close>

definition re_main_station :: "item list" where
  "re_main_station =
     plus (\<lambda>c. upper_letter c \<or> js_whitespace c \<or> c = CHR ''-'')
       @ lit ''MRT'' @ plus js_whitespace @ lit ''STATION''"

definition re_line_code :: "item list" where
  "re_line_code =
     lit ''('' @ [One upper_letter, One upper_letter] @ plus decimal_digit @ lit '')''"

definition re_exit_a :: "item list" where
  "re_exit_a = lit ''EXIT'' @ plus js_whitespace @ lit ''A''"

definition re_exit_other :: "item list" where
  "re_exit_other =
     lit ''EXIT'' @ plus js_whitespace @ [One (\<lambda>c. upper_letter c \<and> c \<noteq> CHR ''A'')]"

definition getStationPriority :: "string \<Rightarrow> nat" where
  "getStationPriority stationName =
     (let upperName = js_toUpperCase stationName
      in if matches re_main_station upperName then 1
         else if re_test_end re_line_code upperName then 2
         else if re_test_end re_exit_a upperName then 3
         else if re_test_end re_exit_other upperName then 4
         else 5)"

record MRTStation =
  st_name :: string
  st_building :: string
  st_address :: string
  st_postal :: string
  st_x :: real
  st_y :: real
  st_latitude :: real
  st_longitude :: real
  st_line :: "string option"
  st_stationCode :: "string option"
  st_distance :: real

record StationGroup =
  baseName :: string
  stations :: "MRTStation list"
  bestRepresentative :: MRTStation

text \<open>One round of the loop over the stations; \<open>groups\<close> is the \<open>Map\<close> in insertion order.\<close>

definition add_station :: "StationGroup \<Rightarrow> MRTStation \<Rightarrow> StationGroup" where
  "add_station g station =
     (let currentPriority = getStationPriority (st_name (bestRepresentative g));
          newPriority = getStationPriority (st_name station)
      in g\<lparr> stations := stations g @ [station],
            bestRepresentative :=
              (if newPriority < currentPriority then station
               else if newPriority = currentPriority
                       \<and> st_distance station < st_distance (bestRepresentative g)
               then station
               else bestRepresentative g) \<rparr>)"

definition group_step ::
  "(string \<times> StationGroup) list \<Rightarrow> MRTStation \<Rightarrow> (string \<times> StationGroup) list" where
  "group_step groups station =
     (let b = extractBaseName (st_name station)
      in case map_of groups b of
           None \<Rightarrow>
             groups @ [(b, \<lparr> baseName = b, stations = [station],
                             bestRepresentative = station \<rparr>)]
         | Some _ \<Rightarrow>
             map (\<lambda>(k, g). if k = b then (k, add_station g station) else (k, g)) groups)"

definition deduplicateStations :: "MRTStation list \<Rightarrow> MRTStation list" where
  "deduplicateStations sts =
     sort_key st_distance (map (\<lambda>(k, g). bestRepresentative g) (foldl group_step [] sts))"


text \<open>
  The shapes of name that the four patterns of \<open>getStationPriority\<close> stand for, in words:
  a name of upper-case letters, white space and hyphens followed by \<open>MRT\<close>, white space
  and \<open>STATION\<close>; a name ending in a parenthesised code of two upper-case letters and
  digits; a name ending in \<open>EXIT\<close>, white space and \<open>A\<close>; a name ending in \<open>EXIT\<close>,
  white space and another upper-case letter.
\<close>

definition main_station_name :: "string \<Rightarrow> bool" where
  "main_station_name s \<longleftrightarrow>
     (\<exists>u w. s = u @ ''MRT'' @ w @ ''STATION''
        \<and> u \<noteq> [] \<and> (\<forall>c \<in> set u. upper_letter c \<or> js_whitespace c \<or> c = CHR ''-'')
        \<and> w \<noteq> [] \<and> (\<forall>c \<in> set w. js_whitespace c))"

definition ends_with_line_code :: "string \<Rightarrow> bool" where
  "ends_with_line_code s \<longleftrightarrow>
     (\<exists>u a b ds. s = u @ ''('' @ [a, b] @ ds @ '')''
        \<and> upper_letter a \<and> upper_letter b \<and> ds \<noteq> [] \<and> (\<forall>c \<in> set ds. decimal_digit c))"

definition ends_with_exit_a :: "string \<Rightarrow> bool" where
  "ends_with_exit_a s \<longleftrightarrow>
     (\<exists>u w. s = u @ ''EXIT'' @ w @ ''A'' \<and> w \<noteq> [] \<and> (\<forall>c \<in> set w. js_whitespace c))"

definition ends_with_other_exit :: "string \<Rightarrow> bool" where
  "ends_with_other_exit s \<longleftrightarrow>
     (\<exists>u w c. s = u @ ''EXIT'' @ w @ [c] \<and> w \<noteq> [] \<and> (\<forall>c \<in> set w. js_whitespace c)
        \<and> upper_letter c \<and> c \<noteq> CHR ''A'')"

text \<open>
  The order in which the loop compares two stations, and what the loop keeps true of
  \<open>groups\<close> after the stations \<open>seen\<close>.
\<close>

definition station_rank :: "MRTStation \<Rightarrow> nat \<times> real" where
  "station_rank s = (getStationPriority (st_name s), st_distance s)"

definition groups_invariant :: "(string \<times> StationGroup) list \<Rightarrow> MRTStation list \<Rightarrow> bool" where
  "groups_invariant groups seen \<longleftrightarrow>
     distinct (map fst groups)
     \<and> fst ` set groups = (\<lambda>s. extractBaseName (st_name s)) ` set seen
     \<and> (\<forall>(k, g) \<in> set groups.
           bestRepresentative g \<in> set seen
           \<and> extractBaseName (st_name (bestRepresentative g)) = k
           \<and> (\<forall>s \<in> set seen. extractBaseName (st_name s) = k \<longrightarrow>
                 station_rank (bestRepresentative g) \<le> station_rank s))"


section \<open>Land-use statistics (planningZoneClient.ts, searchPlanningZones.ts)\<close>

text \<open>
  A zone without its geometry, which the statistics do not read.  A land-use mix is the
  object keyed by land use, in the order in which its keys were first set.
\<close>

record ParsedPlanningZone =
  zone_id :: string
  landUse :: string
  landUseText :: string
  grossPlotRatio :: string
  maxHeight :: string

record LandUseStats =
  use_count :: nat
  percentage :: int

definition count_step :: "(string \<times> nat) list \<Rightarrow> ParsedPlanningZone \<Rightarrow> (string \<times> nat) list" where
  "count_step landUseCount zone =
     (case map_of landUseCount (landUse zone) of
        None \<Rightarrow> landUseCount @ [(landUse zone, 1)]
      | Some _ \<Rightarrow>
          map (\<lambda>(k, c). if k = landUse zone then (k, c + 1) else (k, c)) landUseCount)"

definition analyzeLandUseMix :: "ParsedPlanningZone list \<Rightarrow> (string \<times> LandUseStats) list" where
  "analyzeLandUseMix zones =
     (let totalZones = length zones;
          landUseCount = foldl count_step [] zones
      in map (\<lambda>(k, c).
           (k, \<lparr> use_count = c,
                 percentage = (if 0 < totalZones
                               then js_round (real c / real totalZones * 100) else 0) \<rparr>))
           landUseCount)"

text \<open>
  \<open>Math.log\<close> of the number of categories is minus infinity for no category, 0 for one
  and positive from two on; the test \<open>maxPossibleDiversity > 0\<close> is written with that.
\<close>

definition calculateDiversityScore :: "(string \<times> LandUseStats) list \<Rightarrow> real" where
  "calculateDiversityScore landUseMix =
     (let percentages = map (\<lambda>(k, stats). real_of_int (percentage stats) / 100) landUseMix;
          shannonIndex = - foldl (\<lambda>sum p. if 0 < p then sum + p * ln p else sum) 0 percentages;
          maxPossibleDiversity = ln (real (length percentages))
      in if length percentages \<noteq> 0 \<and> 0 < maxPossibleDiversity
         then shannonIndex / maxPossibleDiversity else 0)"

text \<open>
  The Shannon entropy of a list of proportions, a zero proportion counting for nothing,
  as the specification words it.
\<close>

definition shannon_entropy :: "real list \<Rightarrow> real" where
  "shannon_entropy ps = - (\<Sum>p\<leftarrow>ps. if 0 < p then p * ln p else 0)"


section \<open>Batch routing (oneMapClient.ts)\<close>

text \<open>
  The routing service is outside the program.  Its answer to a call of \<open>calculateRoute\<close>
  is taken as a parameter: \<open>calc k dest n\<close> is what the \<open>n\<close>-th attempt for the
  destination \<open>dest\<close> at position \<open>k\<close> of the list gives, the response (\<open>Inr\<close>) or the
  message of the error thrown (\<open>Inl\<close>).  Origin, route type and options are the same for
  every call of a batch run and are part of \<open>calc\<close>.  Each call is taken to return, as
  the 30 second timeout of the request has it; the waits between attempts and between
  batches change no result, and the waits between batches are returned beside the
  results.
\<close>

record Destination =
  dest_lat :: real
  dest_lon :: real
  dest_name :: string

record 'r RouteOutcome =
  destination :: string
  route_result :: "'r option"
  error :: "string option"

text \<open>\<open>s.includes(sub)\<close>\<close>

definition js_includes :: "string \<Rightarrow> string \<Rightarrow> bool" where
  "js_includes sub s = list_ex (\<lambda>i. take (length sub) (drop i s) = sub) [0..<Suc (length s)]"

definition isRetryable :: "string \<Rightarrow> bool" where
  "isRetryable errorMessage \<longleftrightarrow>
     js_includes ''(429)'' errorMessage \<or> js_includes ''(500)'' errorMessage
     \<or> js_includes ''(502)'' errorMessage \<or> js_includes ''(503)'' errorMessage
     \<or> js_includes ''Too Many Requests'' errorMessage"

text \<open>
  The loop of \<open>calculateRouteWithRetry\<close> from the attempt \<open>attempt\<close> on.  The throw after
  the loop is reached only when the loop runs no round.
\<close>

function retry_loop :: "(nat \<Rightarrow> string + 'r) \<Rightarrow> nat \<Rightarrow> nat \<Rightarrow> string + 'r" where
  "retry_loop call attempt maxRetries =
     (if attempt \<le> maxRetries
      then (case call attempt of
              Inr response \<Rightarrow> Inr response
            | Inl errorMessage \<Rightarrow>
                if \<not> isRetryable errorMessage \<or> attempt = maxRetries then Inl errorMessage
                else retry_loop call (Suc attempt) maxRetries)
      else Inl ''Route calculation failed after retries'')"
  by pat_completeness auto
termination
  by (relation "measure (\<lambda>(call, attempt, maxRetries). Suc maxRetries - attempt)") auto

declare retry_loop.simps [simp del]

definition calculateRouteWithRetry :: "(nat \<Rightarrow> string + 'r) \<Rightarrow> nat \<Rightarrow> string + 'r" where
  "calculateRouteWithRetry call maxRetries = retry_loop call 1 maxRetries"

text \<open>The promise of one destination of a batch: it always resolves to an outcome.\<close>

definition route_outcome ::
  "(nat \<Rightarrow> Destination \<Rightarrow> nat \<Rightarrow> string + 'r) \<Rightarrow> nat \<Rightarrow> Destination \<Rightarrow> 'r RouteOutcome" where
  "route_outcome calc k dest =
     (case calculateRouteWithRetry (calc k dest) 2 of
        Inr response \<Rightarrow>
          \<lparr> destination = dest_name dest, route_result = Some response, error = None \<rparr>
      | Inl errorMsg \<Rightarrow>
          \<lparr> destination = dest_name dest, route_result = None, error = Some errorMsg \<rparr>)"

text \<open>\<open>r.error\<close> as a condition: an error that is set and is not the empty string.\<close>

definition has_error :: "'r RouteOutcome \<Rightarrow> bool" where
  "has_error r = (case error r of None \<Rightarrow> False | Some msg \<Rightarrow> msg \<noteq> [])"

text \<open>
  One batch, starting at position \<open>i\<close> (\<open>enumerate i batch\<close> pairs each destination of
  the batch with its position in the whole list): its outcomes in the order of the batch, the new
  counter of consecutive bad batches (the subtraction of natural numbers stops at 0, as
  \<open>Math.max(0, consecutiveErrors - 1)\<close> does) and the wait before the next batch.
\<close>

definition run_batch ::
  "(nat \<Rightarrow> Destination \<Rightarrow> nat \<Rightarrow> string + 'r) \<Rightarrow> nat \<Rightarrow> Destination list \<Rightarrow> nat
     \<Rightarrow> 'r RouteOutcome list \<times> nat \<times> real" where
  "run_batch calc i batch consecutiveErrors =
     (let batchResults = map (\<lambda>(k, dest). route_outcome calc k dest) (enumerate i batch);
          errors = length (filter has_error batchResults);
          errorRate = real errors / real (length batch);
          consecutive = (if 1 / 2 < errorRate then consecutiveErrors + 1
                         else consecutiveErrors - 1);
          adaptiveDelay = 2000 * (1 + errorRate * 2) * (1 + real consecutive * (1 / 2));
          finalDelay = min adaptiveDelay 10000
      in (batchResults, consecutive, finalDelay))"

text \<open>
  The loop over the batches, from position \<open>i\<close>, with the results and the waits so far.
\<close>

function batch_loop ::
  "(nat \<Rightarrow> Destination \<Rightarrow> nat \<Rightarrow> string + 'r) \<Rightarrow> Destination list \<Rightarrow> nat \<Rightarrow> nat
     \<Rightarrow> 'r RouteOutcome list \<Rightarrow> real list \<Rightarrow> 'r RouteOutcome list \<times> real list" where
  "batch_loop calc destinations i consecutiveErrors res waits =
     (if i < length destinations
      then
        (case run_batch calc i (take 3 (drop i destinations)) consecutiveErrors of
           (batchResults, consecutive, finalDelay) \<Rightarrow>
             batch_loop calc destinations (i + 3) consecutive (res @ batchResults)
               (if i + 3 < length destinations then waits @ [finalDelay] else waits))
      else (res, waits))"
  by pat_completeness auto
termination
  by (relation "measure (\<lambda>(calc, destinations, i, c, res, waits). length destinations - i)")
     simp_all

declare batch_loop.simps [simp del]

definition batchCalculateRoutes ::
  "(nat \<Rightarrow> Destination \<Rightarrow> nat \<Rightarrow> string + 'r) \<Rightarrow> Destination list \<Rightarrow> 'r RouteOutcome list" where
  "batchCalculateRoutes calc destinations = fst (batch_loop calc destinations 0 0 [] [])"

definition batch_waits ::
  "(nat \<Rightarrow> Destination \<Rightarrow> nat \<Rightarrow> string + 'r) \<Rightarrow> Destination list \<Rightarrow> real list" where
  "batch_waits calc destinations = snd (batch_loop calc destinations 0 0 [] [])"


section \<open>Sample data\<close>

definition mk_property :: "int \<Rightarrow> real \<Rightarrow> real \<Rightarrow> PropertyRecord" where
  "mk_property i px py =
     \<lparr> p_id = i, p_project = ''P'', p_street = ''S'', p_x = px, p_y = py,
       p_market_segment = None, p_district = None \<rparr>"

definition no_options :: PropertySearchOptions where
  "no_options =
     \<lparr> maxDistanceMeters = None, minPrice = None, maxPrice = None, propertyTypes = None,
       marketSegments = None, districts = None, fromDate = None, toDate = None,
       minCompletionYear = None, maxPropertyAge = None, saleTypes = None, limit = None \<rparr>"

definition origin :: Coordinates where
  "origin = \<lparr> coord_x = 0, coord_y = 0 \<rparr>"

definition properties_only :: "PropertyRecord list \<Rightarrow> Database" where
  "properties_only ps = \<lparr> properties = ps, transactions = [], rentals = [] \<rparr>"

definition mk_center :: "string \<Rightarrow> real \<Rightarrow> real \<Rightarrow> SearchCenter" where
  "mk_center n cx cy = \<lparr> coord_x = cx, coord_y = cy, name = n, radius = None \<rparr>"

definition mk_transaction :: "int \<Rightarrow> int \<Rightarrow> real \<Rightarrow> real \<Rightarrow> string \<Rightarrow> TransactionRecord" where
  "mk_transaction i pid pr ar d =
     \<lparr> t_id = i, t_property_id = pid, t_price = pr, t_area = ar, t_contract_date = d,
       t_property_type = ''Condominium'', t_tenure = None, t_type_of_sale = None \<rparr>"

definition mk_row :: "int \<Rightarrow> real \<Rightarrow> real \<Rightarrow> real \<Rightarrow> PropertyRow" where
  "mk_row i px py d =
     \<lparr> p_id = i, p_project = ''P'', p_street = ''S'', p_x = px, p_y = py,
       p_market_segment = None, p_district = None, distance = d \<rparr>"

definition mk_station :: "string \<Rightarrow> real \<Rightarrow> MRTStation" where
  "mk_station n d =
     \<lparr> st_name = n, st_building = n, st_address = [], st_postal = [], st_x = 0, st_y = 0,
       st_latitude = 0, st_longitude = 0, st_line = None, st_stationCode = None,
       st_distance = d \<rparr>"

definition mk_zone :: "string \<Rightarrow> string \<Rightarrow> ParsedPlanningZone" where
  "mk_zone i u =
     \<lparr> zone_id = i, landUse = u, landUseText = u, grossPlotRatio = [], maxHeight = [] \<rparr>"

definition mk_destination :: "string \<Rightarrow> Destination" where
  "mk_destination n = \<lparr> dest_lat = 1, dest_lon = 103, dest_name = n \<rparr>"

text \<open>
  A routing service that is over its rate limit for the destinations at positions 0 and
  1, at every attempt, and answers every other call with the response 600.
\<close>

definition two_rate_limited :: "nat \<Rightarrow> Destination \<Rightarrow> nat \<Rightarrow> string + nat" where
  "two_rate_limited k dest n =
     (if k < 2 then Inl ''Failed to calculate route: Too Many Requests (429)'' else Inr 600)"


section \<open>Facts about the primitives\<close>

lemma round_half_even_int: "round_half_even (of_int n) = n"
  by (simp add: round_half_even_def)


lemma floor_log2_bounds:
  assumes "0 < x"
  shows "2 powi \<lfloor>log 2 x\<rfloor> \<le> x" "x < 2 powi (\<lfloor>log 2 x\<rfloor> + 1)"
proof -
  have "(2::real) powr (real_of_int \<lfloor>log 2 x\<rfloor> + 1) = 2 powi (\<lfloor>log 2 x\<rfloor> + 1)"
    using powr_real_of_int'[of 2 "\<lfloor>log 2 x\<rfloor> + 1"] by simp
  then show "2 powi \<lfloor>log 2 x\<rfloor> \<le> x" "x < 2 powi (\<lfloor>log 2 x\<rfloor> + 1)"
    using floor_log_eq_powr_iff[OF assms, of 2 "\<lfloor>log 2 x\<rfloor>"]
    by (simp_all add: powr_real_of_int')
qed

text \<open>A number with at most 53 significant bits is a double: rounding leaves it.\<close>

lemma double_round_representable:
  assumes m: "\<bar>m\<bar> < 2 ^ 53" and k: "- 1074 \<le> k"
  shows "double_round (of_int m * 2 powi k) = of_int m * 2 powi k"
proof (cases "m = 0")
  case True
  then show ?thesis by (simp add: double_round_def)
next
  case False
  let ?v = "real_of_int m * 2 powi k"
  let ?E = "\<lfloor>log 2 \<bar>?v\<bar>\<rfloor>"
  have nz: "?v \<noteq> 0" using False by simp
  then have pos: "0 < \<bar>?v\<bar>" by simp
  have "\<bar>?v\<bar> = real_of_int \<bar>m\<bar> * 2 powi k" by (simp add: abs_mult)
  also have "\<dots> < 2 ^ 53 * 2 powi k"
    using m by (intro mult_strict_right_mono)
      (simp_all add: of_int_less_iff[symmetric, where 'a=real] del: of_int_less_iff)
  also have "\<dots> = 2 powi (53 + k)" by (simp add: power_int_add)
  finally have "2 powi ?E < (2::real) powi (53 + k)"
    using floor_log2_bounds(1)[OF pos] by simp
  then have "?E < 53 + k"
    using power_int_increasing[of "53 + k" ?E "2::real"] by (cases "?E < 53 + k") simp_all
  then have "double_exponent ?v \<le> k" using k by (simp add: double_exponent_def)
  then obtain e where e: "double_exponent ?v = e" "e \<le> k" by blast
  define d where "d = nat (k - e)"
  have "k = e + int d" using e(2) by (simp add: d_def)
  then have pk: "(2::real) powi k = 2 powi e * 2 ^ d"
    by (metis power_int_add power_int_of_nat zero_neq_numeral)
  have "real_of_int m * (2 powi e * 2 ^ d) / 2 powi e = of_int (m * 2 ^ d)" by simp
  then have "round_half_even (real_of_int m * (2 powi e * 2 ^ d) / 2 powi e) = m * 2 ^ d"
    by (simp only: round_half_even_int)
  then have "round_half_even (?v / 2 powi e) = m * 2 ^ d"
    by (simp only: pk)
  then have "double_round ?v = of_int (m * 2 ^ d) * 2 powi e"
    using nz unfolding double_round_def e(1) by (simp only: if_False)
  also have "\<dots> = ?v" unfolding pk by simp
  finally show ?thesis .
qed

lemma double_round_int: "\<bar>m\<bar> < 2 ^ 53 \<Longrightarrow> double_round (of_int m) = of_int m"
  using double_round_representable[of m 0] by simp

lemma double_round_numeral:
  "(numeral n :: int) < 2 ^ 53 \<Longrightarrow> double_round (numeral n) = numeral n"
  "(numeral n :: int) < 2 ^ 53 \<Longrightarrow> double_round (- numeral n) = - numeral n"
  "double_round 0 = 0" "double_round 1 = 1"
  using double_round_int[of "numeral n"] double_round_int[of "- numeral n"] double_round_int[of 1]
  by (simp_all add: double_round_def)

















lemma digit_of_digit_char:
  "n < 10 \<Longrightarrow> digit_of 10 (digit_char n) = Some n"
  by (simp add: digit_of_def digit_char_def Let_def)

lemma of_char_digit_char:
  "n < 10 \<Longrightarrow> (of_char (digit_char n) :: nat) = 48 + n"
  by (simp add: digit_char_def)

lemma digit_char_not_ws:
  "n < 10 \<Longrightarrow> \<not> js_whitespace (digit_char n)"
  by (auto simp: js_whitespace_def of_char_digit_char)

lemma digit_char_neq_sign:
  "n < 10 \<Longrightarrow> digit_char n \<noteq> CHR ''-'' \<and> digit_char n \<noteq> CHR ''+''
     \<and> digit_char n \<noteq> CHR ''x'' \<and> digit_char n \<noteq> CHR ''X''"
  by (auto dest!: arg_cong[where f="of_char :: char \<Rightarrow> nat"] simp: of_char_digit_char)

lemma digit_char_literals:
  "digit_char 0 = CHR ''0''" "digit_char 1 = CHR ''1''" "digit_char 2 = CHR ''2''"
  "digit_char 3 = CHR ''3''" "digit_char 4 = CHR ''4''" "digit_char 5 = CHR ''5''"
  "digit_char 6 = CHR ''6''" "digit_char 7 = CHR ''7''" "digit_char 8 = CHR ''8''"
  "digit_char 9 = CHR ''9''"
  by code_simp+

lemma parseInt_two_digits:
  assumes "a < 10" "b < 10"
  shows "js_parseInt [digit_char a, digit_char b] = Some (int (10 * a + b))"
  using assms digit_char_neq_sign[of a] digit_char_neq_sign[of b]
  by (simp add: js_parseInt_def Let_def digit_char_not_ws digit_of_digit_char)

lemma divmod10:
  "(b::nat) < 10 \<Longrightarrow> (10 * c + b) div 10 = c \<and> (10 * c + b) mod 10 = b"
  by simp

lemma nat_digits_year:
  assumes "a < 10" "b < 10" "k = 19 \<or> k = 20"
  shows "drop 2 (nat_digits (100 * k + 10 * a + b)) = [digit_char a, digit_char b]"
proof -
  have e: "100 * k + 10 * a + b = 10 * (10 * k + a) + b"
    by simp
  have d1: "(100 * k + 10 * a + b) div 10 = 10 * k + a" "(100 * k + 10 * a + b) mod 10 = b"
    unfolding e using divmod10[OF assms(2)] by blast+
  have d2: "(10 * k + a) div 10 = k" "(10 * k + a) mod 10 = a"
    using divmod10[OF assms(1)] by blast+
  have "length (nat_digits 19) = 2" "length (nat_digits 20) = 2"
    by code_simp+
  then have k2: "length (nat_digits k) = 2"
    using assms(3) by blast
  have ge: "\<not> 10 * k + a < 10" "\<not> 100 * k + 10 * a + b < 10"
    using assms(3) by auto
  have s1: "nat_digits (100 * k + 10 * a + b) = nat_digits (10 * k + a) @ [digit_char b]"
    using ge(2) d1 by (simp add: nat_digits.simps[of "100 * k + 10 * a + b"])
  have s2: "nat_digits (10 * k + a) = nat_digits k @ [digit_char a]"
    using ge(1) d2 by (simp add: nat_digits.simps[of "10 * k + a"])
  have "nat_digits (100 * k + 10 * a + b) = nat_digits k @ [digit_char a, digit_char b]"
    by (simp add: s1 s2)
  then show ?thesis using k2 by simp
qed


section \<open>Date decoding\<close>

lemma fullYear_two_digits:
  assumes "y1 < 10" "y2 < 10"
  shows "fullYear_of [c1, c2, digit_char y1, digit_char y2] =
           Some (if 10 * y1 + y2 < 50 then 2000 + int (10 * y1 + y2)
                 else 1900 + int (10 * y1 + y2))"
  using parseInt_two_digits[OF assms]
  by (simp add: fullYear_of_def year_of_def substring_def)

lemma fullYear_suffix:
  assumes "y1 < 10" "y2 < 10"
  shows "drop 2 (num_toString (fullYear_of [c1, c2, digit_char y1, digit_char y2])) =
           [digit_char y1, digit_char y2]"
proof (cases "10 * y1 + y2 < 50")
  case True
  have "nat (2000 + int (10 * y1 + y2)) = 100 * 20 + 10 * y1 + y2"
    by simp
  with True show ?thesis
    using nat_digits_year[OF assms, of 20]
    by (simp add: fullYear_two_digits[OF assms] num_toString_def int_toString_def
        del: of_nat_add of_nat_mult)
next
  case False
  have "nat (1900 + int (10 * y1 + y2)) = 100 * 19 + 10 * y1 + y2"
    by simp
  with False show ?thesis
    using nat_digits_year[OF assms, of 19]
    by (simp add: fullYear_two_digits[OF assms] num_toString_def int_toString_def
        del: of_nat_add of_nat_mult)
qed

lemma parseToQuarter_examples:
  "parseToQuarter ''0125'' = ''Q1'25''" "parseToQuarter ''1224'' = ''Q4'24''"
  "fullYear_of ''0149'' = Some 2049" "fullYear_of ''0150'' = Some 1950"
  by code_simp+

text \<open>
  Claim C3, as the code has it.  A date of four decimal digits \<open>m1 m2 y1 y2\<close> decodes
  to the month \<open>10 m1 + m2\<close> and the two-digit year \<open>Y = 10 y1 + y2\<close>; the quarter is
  \<open>ceil(month / 3)\<close>, the full year is \<open>2000 + Y\<close> when \<open>Y < 50\<close> and \<open>1900 + Y\<close>
  otherwise, and the result is \<open>Q\<close>, the quarter, an apostrophe and the two year
  digits.  So \<open>0125\<close> gives \<open>Q1'25\<close> and \<open>1224\<close> gives \<open>Q4'24\<close>; the year boundary
  lies between \<open>0149\<close> (year 2049) and \<open>0150\<close> (year 1950), the year being the last two
  characters.
\<close>

theorem parseToQuarter_decodes_mmyy:
  assumes "m1 < 10" "m2 < 10" "y1 < 10" "y2 < 10"
  shows "month_of [digit_char m1, digit_char m2, digit_char y1, digit_char y2]
           = Some (int (10 * m1 + m2))
       \<and> year_of [digit_char m1, digit_char m2, digit_char y1, digit_char y2]
           = Some (int (10 * y1 + y2))
       \<and> quarter_of [digit_char m1, digit_char m2, digit_char y1, digit_char y2]
           = Some \<lceil>real (10 * m1 + m2) / 3\<rceil>
       \<and> fullYear_of [digit_char m1, digit_char m2, digit_char y1, digit_char y2]
           = Some (if 10 * y1 + y2 < 50 then 2000 + int (10 * y1 + y2)
                   else 1900 + int (10 * y1 + y2))
       \<and> parseToQuarter [digit_char m1, digit_char m2, digit_char y1, digit_char y2]
           = ''Q'' @ int_toString \<lceil>real (10 * m1 + m2) / 3\<rceil>
               @ [CHR 0x27, digit_char y1, digit_char y2]
       \<and> parseToQuarter ''0125'' = ''Q1'25'' \<and> parseToQuarter ''1224'' = ''Q4'24''
       \<and> fullYear_of ''0149'' = Some 2049 \<and> fullYear_of ''0150'' = Some 1950"
proof -
  let ?s = "[digit_char m1, digit_char m2, digit_char y1, digit_char y2]"
  have m: "month_of ?s = Some (int (10 * m1 + m2))"
    using parseInt_two_digits[OF assms(1,2)] by (simp add: month_of_def substring_def)
  have y: "year_of ?s = Some (int (10 * y1 + y2))"
    using parseInt_two_digits[OF assms(3,4)] by (simp add: year_of_def substring_def)
  have q: "quarter_of ?s = Some \<lceil>real (10 * m1 + m2) / 3\<rceil>"
    using m by (simp add: quarter_of_def)
  have f: "fullYear_of ?s = Some (if 10 * y1 + y2 < 50 then 2000 + int (10 * y1 + y2)
                   else 1900 + int (10 * y1 + y2))"
    by (rule fullYear_two_digits[OF assms(3,4)])
  have p: "parseToQuarter ?s = ''Q'' @ int_toString \<lceil>real (10 * m1 + m2) / 3\<rceil>
               @ [CHR 0x27, digit_char y1, digit_char y2]"
    unfolding parseToQuarter_def fullYear_suffix[OF assms(3,4)] q
    by (simp add: num_toString_def)
  show ?thesis
    by (intro conjI m y q f p parseToQuarter_examples)
qed

theorem parseToQuarter_decodes_mmyy_witness:
  "month_of ''0824'' = Some 8 \<and> year_of ''0824'' = Some 24 \<and> quarter_of ''0824'' = Some 3
     \<and> fullYear_of ''0824'' = Some 2024 \<and> parseToQuarter ''0824'' = ''Q3'24''"
  using parseToQuarter_decodes_mmyy[of 0 8 2 4]
  by (simp add: digit_char_literals int_toString_def nat_digits.simps[of 3])

text \<open>
  The two boundary dates of the claim put the year first: in \<open>4900\<close> and \<open>5000\<close> the
  code reads the months 49 and 50 and the year 00.
\<close>

theorem parseToQuarter_boundary_counterexample:
  "fullYear_of ''4900'' = Some 2000 \<and> fullYear_of ''4900'' \<noteq> Some 2049
     \<and> fullYear_of ''5000'' = Some 2000 \<and> fullYear_of ''5000'' \<noteq> Some 1950
     \<and> parseToQuarter ''4900'' = ''Q17'00'' \<and> parseToQuarter ''5000'' = ''Q17'00''"
  by code_simp

section \<open>Facts about the searches\<close>



lemma length_js_slice0: "0 \<le> n \<Longrightarrow> int (length (js_slice0 n xs)) \<le> n"
  by (simp add: js_slice0_def)

lemma sorted_map_sql_limit: "sorted (map f xs) \<Longrightarrow> sorted (map f (sql_limit n xs))"
  by (simp add: sql_limit_def take_map[symmetric] sorted_wrt_take)

lemma sorted_map_js_slice0: "sorted (map f xs) \<Longrightarrow> sorted (map f (js_slice0 n xs))"
  by (simp add: js_slice0_def take_map[symmetric] sorted_wrt_take)



lemma enrich_fields:
  "property (enrichPropertyData db r) = r" "result_distance (enrichPropertyData db r) = distance r"
  by (simp_all add: enrichPropertyData_def Let_def)



lemma near_results_length:
  "0 \<le> limit_of opts \<Longrightarrow> int (length (results (searchPropertiesNear db center opts))) \<le> limit_of opts"
  by (simp add: searchPropertiesNear_def Let_def length_js_slice0)

lemma near_total:
  "totalAvailable (searchPropertiesNear db center opts) =
     (if truncated (searchPropertiesNear db center opts) then None
      else Some (length (results (searchPropertiesNear db center opts))))"
  by (simp add: searchPropertiesNear_def Let_def)
lemma sqrt_le_iff_sq: "0 \<le> r \<Longrightarrow> sqrt v \<le> r \<longleftrightarrow> v \<le> r\<^sup>2"
  by (metis real_sqrt_le_iff real_sqrt_abs abs_of_nonneg)

lemmas eval_defs =
  searchPropertiesNear_def near_query_def near_where_def near_row_def sql_limit_def js_slice0_def
  limit_of_def radius_of_def in_bounds_def createSearchBounds_def sql_distance_def
  transaction_filters_active_def truthy_num_def truthy_str_def truthy_arr_def nonempty_arr_def
  enrichPropertyData_def recent_transactions_query_def recent_rentals_query_def
  calculatePriceTrends_def getRecentRentalInfo_def order_by_desc_def
  mk_property_def no_options_def origin_def properties_only_def Let_def double_round_numeral











lemma distinct_map_sort_key: "distinct (map f (sort_key k xs)) = distinct (map f xs)"
proof -
  have "mset (map f (sort_key k xs)) = mset (map f xs)" by simp
  then show ?thesis by (rule mset_eq_imp_distinct_iff)
qed





lemma multi_query_sorted:
  "sorted (map (\<lambda>r. (search_center r, distance_to_center r)) (multi_query peer_order db centers opts n))"
  unfolding multi_query_def by (intro sorted_map_sql_limit) simp

lemma multi_enrich_fields:
  "searchCenter (multi_enrich db r) = search_center r"
  "distanceToCenter (multi_enrich db r) = distance_to_center r"
  "p_id (property (multi_enrich db r)) = p_id r"
  "p_x (property (multi_enrich db r)) = p_x r"
  "p_y (property (multi_enrich db r)) = p_y r"
  by (simp_all add: multi_enrich_def enrich_fields PropertySearchResult.extend_def
      MultiCenterResult.fields_def)
















lemmas multi_eval_defs =
  searchPropertiesNearMultiple_def multi_query_def multi_where_def multi_enrich_def
  closest_assignment_def multi_center_results_def center_query_def center_row_def
  in_center_disk_def center_radius_def multi_limit_of_def mk_center_def
  PropertySearchResult.extend_def MultiCenterResult.fields_def

section \<open>Claims about the exact-radius search\<close>








section \<open>Claims about the multi-center search\<close>

lemma multi_results_sorted:
  "sorted (map (\<lambda>res. (searchCenter res, distanceToCenter res))
     (multi_results (searchPropertiesNearMultiple peer_order db centers opts)))"
proof -
  have "(\<lambda>res. (searchCenter res, distanceToCenter res)) \<circ> multi_enrich db
          = (\<lambda>r. (search_center r, distance_to_center r))"
    by (rule ext) (simp add: multi_enrich_fields)
  then show ?thesis
    by (simp add: searchPropertiesNearMultiple_def Let_def sorted_map_js_slice0
        multi_query_sorted)
qed

lemma multi_results_length:
  "0 \<le> multi_limit_of opts \<Longrightarrow>
     int (length (multi_results (searchPropertiesNearMultiple peer_order db centers opts)))
       \<le> multi_limit_of opts"
  by (simp add: searchPropertiesNearMultiple_def Let_def length_js_slice0)

lemma multi_total:
  "multi_totalAvailable (searchPropertiesNearMultiple peer_order db centers opts) =
     (if multi_truncated (searchPropertiesNearMultiple peer_order db centers opts) then None
      else Some (length (multi_results (searchPropertiesNearMultiple peer_order db centers opts))))"
  by (simp add: searchPropertiesNearMultiple_def Let_def)



text \<open>
  Claim C7, as the code has it.  The output of \<open>searchPropertiesNearMultiple\<close> is
  ordered by the name of the assigned center, ascending as text, and results with the
  same center name are in ascending order of their distance to the center.
\<close>

theorem searchPropertiesNearMultiple_order:
  "sorted (map searchCenter
      (multi_results (searchPropertiesNearMultiple peer_order db centers opts)))
   \<and> (\<forall>i j. i < j
         \<and> j < length (multi_results (searchPropertiesNearMultiple peer_order db centers opts))
         \<and> searchCenter (multi_results (searchPropertiesNearMultiple peer_order db centers opts) ! i)
           = searchCenter (multi_results (searchPropertiesNearMultiple peer_order db centers opts) ! j)
         \<longrightarrow> distanceToCenter
               (multi_results (searchPropertiesNearMultiple peer_order db centers opts) ! i)
             \<le> distanceToCenter
               (multi_results (searchPropertiesNearMultiple peer_order db centers opts) ! j))"
proof -
  let ?rs = "multi_results (searchPropertiesNearMultiple peer_order db centers opts)"
  have pairs: "sorted (map (\<lambda>res. (searchCenter res, distanceToCenter res)) ?rs)"
    by (rule multi_results_sorted)
  have le: "(searchCenter (?rs ! i), distanceToCenter (?rs ! i))
              \<le> (searchCenter (?rs ! j), distanceToCenter (?rs ! j))"
    if "i < j" "j < length ?rs" for i j
    using sorted_nth_mono[OF pairs, of i j] that by simp
  have "sorted (map searchCenter ?rs)"
    unfolding sorted_iff_nth_mono_less
  proof (intro allI impI)
    fix i j
    assume "i < j" "j < length (map searchCenter ?rs)"
    with le[of i j] show "map searchCenter ?rs ! i \<le> map searchCenter ?rs ! j"
      by (auto simp: less_eq_prod_def)
  qed
  moreover have "distanceToCenter (?rs ! i) \<le> distanceToCenter (?rs ! j)"
    if "i < j" "j < length ?rs" "searchCenter (?rs ! i) = searchCenter (?rs ! j)" for i j
    using le[OF that(1,2)] that(3) by (simp add: less_eq_prod_def)
  ultimately show ?thesis by blast
qed

theorem searchPropertiesNearMultiple_order_witness:
  "map (\<lambda>res. (searchCenter res, distanceToCenter res, p_id (property res)))
     (multi_results (searchPropertiesNearMultiple (\<lambda>rows. rows)
        (properties_only [mk_property 1 6 8, mk_property 2 3 4, mk_property 3 5000 10])
        [mk_center ''A'' 0 0, mk_center ''C'' 5000 0] no_options))
     = [(''A'', 5, 2), (''A'', 10, 1), (''C'', 10, 3)]
   \<and> sorted (map searchCenter
     (multi_results (searchPropertiesNearMultiple (\<lambda>rows. rows)
        (properties_only [mk_property 1 6 8, mk_property 2 3 4, mk_property 3 5000 10])
        [mk_center ''A'' 0 0, mk_center ''C'' 5000 0] no_options)))"
  using searchPropertiesNearMultiple_order[of "\<lambda>rows. rows"
      "properties_only [mk_property 1 6 8, mk_property 2 3 4, mk_property 3 5000 10]"
      "[mk_center ''A'' 0 0, mk_center ''C'' 5000 0]" no_options]
  by (simp add: multi_eval_defs eval_defs sqrt_le_iff_sq)

text \<open>
  The caller gives the center \<open>B\<close> first and \<open>A\<close> second; the group of \<open>A\<close> comes first
  in the output.
\<close>

theorem searchPropertiesNearMultiple_order_counterexample:
  "map name [mk_center ''B'' 0 0, mk_center ''A'' 5000 0] = [''B'', ''A'']
   \<and> map (\<lambda>res. (searchCenter res, distanceToCenter res, p_id (property res)))
       (multi_results (searchPropertiesNearMultiple (\<lambda>rows. rows)
          (properties_only [mk_property 1 3 4, mk_property 2 5000 10])
          [mk_center ''B'' 0 0, mk_center ''A'' 5000 0] no_options))
       = [(''A'', 10, 2), (''B'', 5, 1)]"
  by (simp add: multi_eval_defs eval_defs sqrt_le_iff_sq)


section \<open>Claims about the result cap\<close>

text \<open>
  Claim C10, as the code has it.  For a limit that is not negative, a response of
  \<open>searchPropertiesNear\<close> or of \<open>searchPropertiesNearMultiple\<close> has at most \<open>limit\<close>
  results (50 and 100 when the caller gives none).  For every limit, \<open>totalAvailable\<close>
  is the number of returned results when \<open>truncated\<close> is false and is undefined when
  \<open>truncated\<close> is true.
\<close>

theorem search_limit_truncation:
  "(0 \<le> limit_of opts \<longrightarrow>
      int (length (results (searchPropertiesNear db center opts))) \<le> limit_of opts)
   \<and> (\<not> truncated (searchPropertiesNear db center opts) \<longrightarrow>
        totalAvailable (searchPropertiesNear db center opts)
          = Some (length (results (searchPropertiesNear db center opts))))
   \<and> (truncated (searchPropertiesNear db center opts) \<longrightarrow>
        totalAvailable (searchPropertiesNear db center opts) = None)
   \<and> (0 \<le> multi_limit_of opts \<longrightarrow>
        int (length (multi_results (searchPropertiesNearMultiple peer_order db centers opts)))
          \<le> multi_limit_of opts)
   \<and> (\<not> multi_truncated (searchPropertiesNearMultiple peer_order db centers opts) \<longrightarrow>
        multi_totalAvailable (searchPropertiesNearMultiple peer_order db centers opts)
          = Some (length (multi_results (searchPropertiesNearMultiple peer_order db centers opts))))
   \<and> (multi_truncated (searchPropertiesNearMultiple peer_order db centers opts) \<longrightarrow>
        multi_totalAvailable (searchPropertiesNearMultiple peer_order db centers opts) = None)"
  using near_results_length[of opts db center] near_total[of db center opts]
    multi_results_length[of opts peer_order db centers] multi_total[of peer_order db centers opts]
  by simp

text \<open>Two matching properties: limit 1 truncates, limit 5 does not.\<close>

theorem search_limit_truncation_witness:
  "length (results (searchPropertiesNear (properties_only [mk_property 1 3 4, mk_property 2 0 5])
       origin (no_options\<lparr>limit := Some 1\<rparr>))) = 1
   \<and> truncated (searchPropertiesNear (properties_only [mk_property 1 3 4, mk_property 2 0 5])
       origin (no_options\<lparr>limit := Some 1\<rparr>))
   \<and> totalAvailable (searchPropertiesNear (properties_only [mk_property 1 3 4, mk_property 2 0 5])
       origin (no_options\<lparr>limit := Some 1\<rparr>)) = None
   \<and> length (multi_results (searchPropertiesNearMultiple (\<lambda>rows. rows)
       (properties_only [mk_property 1 3 4, mk_property 2 0 5]) [mk_center ''A'' 0 0]
       (no_options\<lparr>limit := Some 1\<rparr>))) = 1
   \<and> multi_truncated (searchPropertiesNearMultiple (\<lambda>rows. rows)
       (properties_only [mk_property 1 3 4, mk_property 2 0 5]) [mk_center ''A'' 0 0]
       (no_options\<lparr>limit := Some 1\<rparr>))
   \<and> multi_totalAvailable (searchPropertiesNearMultiple (\<lambda>rows. rows)
       (properties_only [mk_property 1 3 4, mk_property 2 0 5]) [mk_center ''A'' 0 0]
       (no_options\<lparr>limit := Some 1\<rparr>)) = None
   \<and> length (results (searchPropertiesNear (properties_only [mk_property 1 3 4, mk_property 2 0 5])
       origin (no_options\<lparr>limit := Some 5\<rparr>))) = 2
   \<and> \<not> truncated (searchPropertiesNear (properties_only [mk_property 1 3 4, mk_property 2 0 5])
       origin (no_options\<lparr>limit := Some 5\<rparr>))
   \<and> totalAvailable (searchPropertiesNear (properties_only [mk_property 1 3 4, mk_property 2 0 5])
       origin (no_options\<lparr>limit := Some 5\<rparr>)) = Some 2"
  using search_limit_truncation[of "no_options\<lparr>limit := Some 1\<rparr>"
      "properties_only [mk_property 1 3 4, mk_property 2 0 5]" origin "\<lambda>rows. rows"
      "[mk_center ''A'' 0 0]"]
  by (simp add: multi_eval_defs eval_defs sqrt_le_iff_sq)

text \<open>
  Three matching properties and the limit \<open>-2\<close>: the query has no bound, and
  \<open>slice(0, -2)\<close> keeps one row.  One result is more than \<open>-2\<close>.
\<close>

theorem search_limit_negative_counterexample:
  "length (results (searchPropertiesNear
      (properties_only [mk_property 1 3 4, mk_property 2 0 5, mk_property 3 5 0])
      origin (no_options\<lparr>limit := Some (- 2)\<rparr>))) = 1
   \<and> limit_of (no_options\<lparr>limit := Some (- 2)\<rparr>) = - 2
   \<and> length (multi_results (searchPropertiesNearMultiple (\<lambda>rows. rows)
      (properties_only [mk_property 1 3 4, mk_property 2 0 5, mk_property 3 5 0])
      [mk_center ''A'' 0 0] (no_options\<lparr>limit := Some (- 2)\<rparr>))) = 1
   \<and> multi_limit_of (no_options\<lparr>limit := Some (- 2)\<rparr>) = - 2"
  by (simp add: multi_eval_defs eval_defs sqrt_le_iff_sq)

section \<open>Claims about the price trend\<close>

lemma quarterly_step_outlier:
  "\<not> (200 \<le> pricePerSqf t \<and> pricePerSqf t \<le> 10000) \<Longrightarrow> quarterly_step qd t = qd"
  by (auto simp: quarterly_step_def Let_def)

lemma foldl_quarterly_step_in_band:
  "foldl quarterly_step qd (filter (\<lambda>t. 200 \<le> pricePerSqf t \<and> pricePerSqf t \<le> 10000) txns)
     = foldl quarterly_step qd txns"
  by (induction txns arbitrary: qd) (simp_all add: quarterly_step_outlier)

lemma js_sort_Nil: "js_sort cmp [] = []"
  by (simp add: js_sort_def)

text \<open>The two early returns of \<open>calculatePriceTrends\<close> give what the main path gives.\<close>

lemma calculatePriceTrends_alt:
  "calculatePriceTrends txns =
     (let quarterlyData = foldl quarterly_step [] (filter (\<lambda>t. 0 < t_price t \<and> 0 < t_area t) txns);
          trends = map (\<lambda>(k, c, s).
                     \<lparr> quarter = k, avgPricePerSqf = js_round (s / real c),
                       transactionCount = c \<rparr>) quarterlyData;
          sorted = js_sort (\<lambda>a b. quarter_compare_asc (quarter a) (quarter b)) trends
      in drop (length sorted - 20) sorted)"
  by (cases "filter (\<lambda>t. 0 < t_price t \<and> 0 < t_area t) txns = []")
     (auto simp: calculatePriceTrends_def Let_def js_sort_Nil)

lemma calculatePriceTrends_in_band:
  "calculatePriceTrends (filter (\<lambda>t. 200 \<le> pricePerSqf t \<and> pricePerSqf t \<le> 10000) txns)
     = calculatePriceTrends txns"
proof -
  have "filter (\<lambda>t. 0 < t_price t \<and> 0 < t_area t)
          (filter (\<lambda>t. 200 \<le> pricePerSqf t \<and> pricePerSqf t \<le> 10000) txns)
      = filter (\<lambda>t. 200 \<le> pricePerSqf t \<and> pricePerSqf t \<le> 10000)
          (filter (\<lambda>t. 0 < t_price t \<and> 0 < t_area t) txns)"
    by (simp add: conj_commute)
  then show ?thesis
    unfolding calculatePriceTrends_alt by (simp only: foldl_quarterly_step_in_band)
qed

text \<open>
  Claim C6.  The quarterly trend of \<open>calculatePriceTrends\<close> is the trend of the
  transactions whose unit price, the price divided by the area times 10.764, lies in the
  band from 200 to 10000: a transaction outside the band changes no aggregate.  The
  function is total, so the exclusion raises nothing.  \<open>enrichPropertyData\<close> returns the
  rows of its transaction query unchanged as \<open>recentTransactions\<close>, next to the trend
  computed from them.
\<close>

theorem calculatePriceTrends_excludes_outliers:
  "calculatePriceTrends txns
     = calculatePriceTrends
         (filter (\<lambda>t. 200 \<le> t_price t / (t_area t * (10764 / 1000))
                    \<and> t_price t / (t_area t * (10764 / 1000)) \<le> 10000) txns)
   \<and> recentTransactions (enrichPropertyData db prop) = recent_transactions_query db (p_id prop)
   \<and> pricePerSqfTrend (enrichPropertyData db prop)
       = calculatePriceTrends
           (filter (\<lambda>t. 200 \<le> t_price t / (t_area t * (10764 / 1000))
                      \<and> t_price t / (t_area t * (10764 / 1000)) \<le> 10000)
              (recentTransactions (enrichPropertyData db prop)))"
  using calculatePriceTrends_in_band[of txns]
    calculatePriceTrends_in_band[of "recent_transactions_query db (p_id prop)"]
  by (simp add: enrichPropertyData_def Let_def pricePerSqf_def)

text \<open>
  Two sales of property 7 in the third quarter of 2024: 1,000,000 for 100 square metres
  (929 per square foot) and 1,000,000 for 1 square metre (92,902 per square foot).
\<close>

theorem calculatePriceTrends_excludes_outliers_witness:
  "calculatePriceTrends
     [mk_transaction 1 7 1000000 100 ''0824'', mk_transaction 2 7 1000000 1 ''0924'']
     = [\<lparr> quarter = ''Q3'24'', avgPricePerSqf = 929, transactionCount = 1 \<rparr>]
   \<and> recentTransactions (enrichPropertyData
        \<lparr> properties = [mk_property 7 0 0],
          transactions = [mk_transaction 1 7 1000000 100 ''0824'',
                          mk_transaction 2 7 1000000 1 ''0924''],
          rentals = [] \<rparr> (mk_row 7 0 0 0))
     = [mk_transaction 2 7 1000000 1 ''0924'', mk_transaction 1 7 1000000 100 ''0824'']
   \<and> pricePerSqfTrend (enrichPropertyData
        \<lparr> properties = [mk_property 7 0 0],
          transactions = [mk_transaction 1 7 1000000 100 ''0824'',
                          mk_transaction 2 7 1000000 1 ''0924''],
          rentals = [] \<rparr> (mk_row 7 0 0 0))
     = [\<lparr> quarter = ''Q3'24'', avgPricePerSqf = 929, transactionCount = 1 \<rparr>]"
proof -
  let ?t1 = "mk_transaction 1 7 1000000 100 ''0824''"
  let ?t2 = "mk_transaction 2 7 1000000 1 ''0924''"
  let ?db = "\<lparr> properties = [mk_property 7 0 0], transactions = [?t1, ?t2], rentals = [] \<rparr>"
  have band: "filter (\<lambda>t. 200 \<le> t_price t / (t_area t * (10764 / 1000))
                    \<and> t_price t / (t_area t * (10764 / 1000)) \<le> 10000) [?t1, ?t2] = [?t1]"
    by (simp add: mk_transaction_def)
  have one: "calculatePriceTrends [?t1]
      = [\<lparr> quarter = ''Q3'24'', avgPricePerSqf = 929, transactionCount = 1 \<rparr>]"
    by code_simp
  have raw: "recentTransactions (enrichPropertyData ?db (mk_row 7 0 0 0)) = [?t2, ?t1]"
    by code_simp
  have trend: "pricePerSqfTrend (enrichPropertyData ?db (mk_row 7 0 0 0))
      = [\<lparr> quarter = ''Q3'24'', avgPricePerSqf = 929, transactionCount = 1 \<rparr>]"
    by code_simp
  from calculatePriceTrends_excludes_outliers[of "[?t1, ?t2]" ?db "mk_row 7 0 0 0"]
  have "calculatePriceTrends [?t1, ?t2]
      = calculatePriceTrends
         (filter (\<lambda>t. 200 \<le> t_price t / (t_area t * (10764 / 1000))
                    \<and> t_price t / (t_area t * (10764 / 1000)) \<le> 10000) [?t1, ?t2])"
    by (rule conjunct1)
  then have "calculatePriceTrends [?t1, ?t2]
      = [\<lparr> quarter = ''Q3'24'', avgPricePerSqf = 929, transactionCount = 1 \<rparr>]"
    by (simp only: band one)
  with raw trend show ?thesis by (intro conjI)
qed

section \<open>Facts about the patterns and the station groups\<close>

lemma matches_One:
  "matches (One p # r) s \<longleftrightarrow> (\<exists>c v. s = c # v \<and> p c \<and> matches r v)"
  by (cases s) auto

lemma matches_Many:
  "matches (Many p # r) s \<longleftrightarrow> (\<exists>u v. s = u @ v \<and> (\<forall>c \<in> set u. p c) \<and> matches r v)"
proof (induction s)
  case Nil
  then show ?case by auto
next
  case (Cons a s)
  show ?case
  proof
    assume "matches (Many p # r) (a # s)"
    then consider "matches r (a # s)" | "p a" "matches (Many p # r) s" by auto
    then show "\<exists>u v. a # s = u @ v \<and> (\<forall>c \<in> set u. p c) \<and> matches r v"
    proof cases
      case 1
      then have "a # s = [] @ (a # s) \<and> (\<forall>c \<in> set []. p c) \<and> matches r (a # s)" by simp
      then show ?thesis by blast
    next
      case 2
      with Cons.IH obtain u v where "s = u @ v" "\<forall>c \<in> set u. p c" "matches r v" by blast
      with 2(1) have "a # s = (a # u) @ v \<and> (\<forall>c \<in> set (a # u). p c) \<and> matches r v" by simp
      then show ?thesis by blast
    qed
  next
    assume "\<exists>u v. a # s = u @ v \<and> (\<forall>c \<in> set u. p c) \<and> matches r v"
    then obtain u v where uv: "a # s = u @ v" "\<forall>c \<in> set u. p c" "matches r v" by blast
    show "matches (Many p # r) (a # s)"
    proof (cases u)
      case Nil
      with uv have "matches r (a # s)" by simp
      then show ?thesis by simp
    next
      case (Cons b u')
      with uv have "s = u' @ v" "p a" "\<forall>c \<in> set u'. p c" by auto
      with uv(3) Cons.IH have "matches (Many p # r) s" by blast
      with \<open>p a\<close> show ?thesis by simp
    qed
  qed
qed

lemma matches_lit:
  "matches (lit w @ r) s \<longleftrightarrow> (\<exists>v. s = w @ v \<and> matches r v)"
  by (induction w arbitrary: s) (auto simp: lit_def matches_One)

lemma re_test_end_iff:
  "re_test_end r s \<longleftrightarrow> (\<exists>u v. s = u @ v \<and> matches r v)"
proof
  assume "re_test_end r s"
  then obtain i where "matches r (drop i s)"
    unfolding re_test_end_def list_ex_iff by blast
  moreover have "s = take i s @ drop i s" by simp
  ultimately show "\<exists>u v. s = u @ v \<and> matches r v" by blast
next
  assume "\<exists>u v. s = u @ v \<and> matches r v"
  then obtain u v where "s = u @ v" "matches r v" by blast
  then have "length u < Suc (length s)" "matches r (drop (length u) s)" by auto
  then show "re_test_end r s"
    unfolding re_test_end_def list_ex_iff by (metis atLeastLessThan_iff set_upt zero_le)
qed


lemma matches_plus:
  "matches (plus p @ r) s \<longleftrightarrow>
     (\<exists>u v. s = u @ v \<and> u \<noteq> [] \<and> (\<forall>c \<in> set u. p c) \<and> matches r v)"
proof
  assume "matches (plus p @ r) s"
  then obtain c u v where "s = c # u @ v" "p c" "\<forall>d \<in> set u. p d" "matches r v"
    unfolding plus_def append_Cons append_Nil matches_One matches_Many by blast
  then have "s = (c # u) @ v \<and> c # u \<noteq> [] \<and> (\<forall>d \<in> set (c # u). p d) \<and> matches r v"
    by simp
  then show "\<exists>u v. s = u @ v \<and> u \<noteq> [] \<and> (\<forall>c \<in> set u. p c) \<and> matches r v"
    by blast
next
  assume "\<exists>u v. s = u @ v \<and> u \<noteq> [] \<and> (\<forall>c \<in> set u. p c) \<and> matches r v"
  then obtain u v where uv: "s = u @ v" "u \<noteq> []" "\<forall>c \<in> set u. p c" "matches r v" by blast
  then obtain c u' where "u = c # u'" by (cases u) auto
  with uv have "s = c # (u' @ v)" "p c" "\<forall>d \<in> set u'. p d" by auto
  with uv(4) show "matches (plus p @ r) s"
    unfolding plus_def append_Cons append_Nil matches_One matches_Many by blast
qed

lemma matches_lit_only: "matches (lit w) s \<longleftrightarrow> s = w"
  using matches_lit[of w "[]" s] by simp

lemma matches_One_only: "matches [One p] s \<longleftrightarrow> (\<exists>c. s = [c] \<and> p c)"
  by (auto simp: matches_One)

lemma matches_One_app: "matches ([One p] @ r) s \<longleftrightarrow> (\<exists>c v. s = c # v \<and> p c \<and> matches r v)"
  by (simp add: matches_One)

lemma matches_Two_app:
  "matches ([One p, One q] @ r) s \<longleftrightarrow> (\<exists>a b v. s = a # b # v \<and> p a \<and> q b \<and> matches r v)"
  by (auto simp: matches_One)


lemma main_station_iff: "matches re_main_station s \<longleftrightarrow> main_station_name s"
proof -
  have "matches re_main_station s \<longleftrightarrow>
      (\<exists>u v. s = u @ v \<and> u \<noteq> []
          \<and> (\<forall>c \<in> set u. upper_letter c \<or> js_whitespace c \<or> c = CHR ''-'')
          \<and> (\<exists>v'. v = ''MRT'' @ v'
                \<and> (\<exists>w v''. v' = w @ v'' \<and> w \<noteq> [] \<and> (\<forall>c \<in> set w. js_whitespace c)
                      \<and> v'' = ''STATION'')))"
    unfolding re_main_station_def matches_plus matches_lit matches_lit_only ..
  also have "\<dots> \<longleftrightarrow> main_station_name s"
    unfolding main_station_name_def by blast
  finally show ?thesis .
qed

lemma line_code_matches:
  "matches re_line_code v \<longleftrightarrow>
      (\<exists>a b ds. v = ''('' @ [a, b] @ ds @ '')'' \<and> upper_letter a \<and> upper_letter b
         \<and> ds \<noteq> [] \<and> (\<forall>c \<in> set ds. decimal_digit c))"
proof -
  have "matches re_line_code v \<longleftrightarrow>
      (\<exists>v1. v = ''('' @ v1
         \<and> (\<exists>a b v2. v1 = a # b # v2 \<and> upper_letter a \<and> upper_letter b
               \<and> (\<exists>ds v3. v2 = ds @ v3 \<and> ds \<noteq> [] \<and> (\<forall>c \<in> set ds. decimal_digit c)
                     \<and> v3 = '')'')))"
    unfolding re_line_code_def matches_lit matches_Two_app matches_plus matches_lit_only ..
  also have "\<dots> \<longleftrightarrow> (\<exists>a b ds. v = ''('' @ [a, b] @ ds @ '')'' \<and> upper_letter a
         \<and> upper_letter b \<and> ds \<noteq> [] \<and> (\<forall>c \<in> set ds. decimal_digit c))"
    by auto
  finally show ?thesis .
qed

lemma line_code_iff: "re_test_end re_line_code s \<longleftrightarrow> ends_with_line_code s"
  unfolding re_test_end_iff ends_with_line_code_def line_code_matches by blast

lemma exit_a_matches:
  "matches re_exit_a v \<longleftrightarrow>
      (\<exists>w. v = ''EXIT'' @ w @ ''A'' \<and> w \<noteq> [] \<and> (\<forall>c \<in> set w. js_whitespace c))"
proof -
  have "matches re_exit_a v \<longleftrightarrow>
      (\<exists>v1. v = ''EXIT'' @ v1
         \<and> (\<exists>w v2. v1 = w @ v2 \<and> w \<noteq> [] \<and> (\<forall>c \<in> set w. js_whitespace c) \<and> v2 = ''A''))"
    unfolding re_exit_a_def matches_lit matches_plus matches_lit_only ..
  also have "\<dots> \<longleftrightarrow> (\<exists>w. v = ''EXIT'' @ w @ ''A'' \<and> w \<noteq> []
         \<and> (\<forall>c \<in> set w. js_whitespace c))"
    by auto
  finally show ?thesis .
qed

lemma exit_a_iff: "re_test_end re_exit_a s \<longleftrightarrow> ends_with_exit_a s"
  unfolding re_test_end_iff ends_with_exit_a_def exit_a_matches by blast

lemma exit_other_matches:
  "matches re_exit_other v \<longleftrightarrow>
      (\<exists>w c. v = ''EXIT'' @ w @ [c] \<and> w \<noteq> [] \<and> (\<forall>c \<in> set w. js_whitespace c)
         \<and> upper_letter c \<and> c \<noteq> CHR ''A'')"
proof -
  have "matches re_exit_other v \<longleftrightarrow>
      (\<exists>v1. v = ''EXIT'' @ v1
         \<and> (\<exists>w v2. v1 = w @ v2 \<and> w \<noteq> [] \<and> (\<forall>c \<in> set w. js_whitespace c)
               \<and> (\<exists>c. v2 = [c] \<and> upper_letter c \<and> c \<noteq> CHR ''A'')))"
    unfolding re_exit_other_def matches_lit matches_plus matches_One_only ..
  also have "\<dots> \<longleftrightarrow> (\<exists>w c. v = ''EXIT'' @ w @ [c] \<and> w \<noteq> []
         \<and> (\<forall>c \<in> set w. js_whitespace c) \<and> upper_letter c \<and> c \<noteq> CHR ''A'')"
    by auto
  finally show ?thesis .
qed

lemma exit_other_iff: "re_test_end re_exit_other s \<longleftrightarrow> ends_with_other_exit s"
  unfolding re_test_end_iff ends_with_other_exit_def exit_other_matches by blast

lemma getStationPriority_shapes:
  "getStationPriority n =
     (if main_station_name (js_toUpperCase n) then 1
      else if ends_with_line_code (js_toUpperCase n) then 2
      else if ends_with_exit_a (js_toUpperCase n) then 3
      else if ends_with_other_exit (js_toUpperCase n) then 4
      else 5)"
  by (simp add: getStationPriority_def Let_def main_station_iff line_code_iff exit_a_iff
      exit_other_iff)


lemma add_station_best:
  "bestRepresentative (add_station g x) =
     (if station_rank x < station_rank (bestRepresentative g) then x else bestRepresentative g)"
  by (auto simp: add_station_def station_rank_def Let_def less_prod_def)

lemma groups_invariant_Nil: "groups_invariant [] []"
  by (simp add: groups_invariant_def)

lemma group_step_new:
  assumes inv: "groups_invariant groups seen"
    and new: "map_of groups (extractBaseName (st_name x)) = None"
  shows "groups_invariant (group_step groups x) (seen @ [x])"
proof -
  let ?b = "extractBaseName (st_name x)"
  let ?g = "\<lparr> baseName = ?b, stations = [x], bestRepresentative = x \<rparr>"
  have step: "group_step groups x = groups @ [(?b, ?g)]"
    using new by (simp add: group_step_def Let_def)
  have fresh: "?b \<notin> fst ` set groups"
    using new by (simp add: map_of_eq_None_iff)
  have keys0: "fst ` set groups = (\<lambda>s. extractBaseName (st_name s)) ` set seen"
    using inv by (simp add: groups_invariant_def)
  have unseen: "\<forall>s \<in> set seen. extractBaseName (st_name s) \<noteq> ?b"
  proof
    fix s assume "s \<in> set seen"
    then have "extractBaseName (st_name s) \<in> fst ` set groups"
      unfolding keys0 by (rule imageI)
    with fresh show "extractBaseName (st_name s) \<noteq> ?b" by metis
  qed
  have d: "distinct (map fst (groups @ [(?b, ?g)]))"
    using inv fresh by (simp add: groups_invariant_def)
  have keys: "fst ` set (groups @ [(?b, ?g)])
      = (\<lambda>s. extractBaseName (st_name s)) ` set (seen @ [x])"
    using inv by (auto simp: groups_invariant_def)
  have best: "bestRepresentative g \<in> set (seen @ [x])
      \<and> extractBaseName (st_name (bestRepresentative g)) = k
      \<and> (\<forall>s \<in> set (seen @ [x]). extractBaseName (st_name s) = k \<longrightarrow>
            station_rank (bestRepresentative g) \<le> station_rank s)"
    if kg: "(k, g) \<in> set (groups @ [(?b, ?g)])" for k g
  proof (cases "(k, g) \<in> set groups")
    case True
    then have "k \<noteq> ?b" using fresh by force
    moreover from True inv have "bestRepresentative g \<in> set seen
      \<and> extractBaseName (st_name (bestRepresentative g)) = k
      \<and> (\<forall>s \<in> set seen. extractBaseName (st_name s) = k \<longrightarrow>
            station_rank (bestRepresentative g) \<le> station_rank s)"
      unfolding groups_invariant_def by blast
    ultimately show ?thesis by auto
  next
    case False
    with kg have "k = ?b" "g = ?g" by auto
    with unseen show ?thesis by auto
  qed
  show ?thesis
    unfolding step groups_invariant_def using d keys best by blast
qed

lemma group_step_old:
  assumes inv: "groups_invariant groups seen"
    and old: "map_of groups (extractBaseName (st_name x)) = Some g0"
  shows "groups_invariant (group_step groups x) (seen @ [x])"
proof -
  let ?b = "extractBaseName (st_name x)"
  let ?f = "\<lambda>(k, g). if k = ?b then (k, add_station g x) else (k, g)"
  have step: "group_step groups x = map ?f groups"
    using old by (simp add: group_step_def Let_def)
  have fst_f: "map fst (map ?f groups) = map fst groups"
    by (induction groups) (auto split: prod.splits)
  have known: "?b \<in> fst ` set groups"
    using old by (metis map_of_eq_None_iff option.distinct(1))
  have d: "distinct (map fst (map ?f groups))"
    using inv unfolding fst_f by (simp add: groups_invariant_def)
  have "fst ` set (map ?f groups) = fst ` set groups"
    using fst_f by (metis set_map)
  then have keys: "fst ` set (map ?f groups)
      = (\<lambda>s. extractBaseName (st_name s)) ` set (seen @ [x])"
    using inv known by (auto simp: groups_invariant_def)
  have best: "bestRepresentative g' \<in> set (seen @ [x])
      \<and> extractBaseName (st_name (bestRepresentative g')) = k
      \<and> (\<forall>s \<in> set (seen @ [x]). extractBaseName (st_name s) = k \<longrightarrow>
            station_rank (bestRepresentative g') \<le> station_rank s)"
    if kg: "(k, g') \<in> set (map ?f groups)" for k g'
  proof -
    from kg obtain g where g: "(k, g) \<in> set groups"
      "g' = (if k = ?b then add_station g x else g)"
      by (auto split: if_splits)
    from g(1) inv have old_best: "bestRepresentative g \<in> set seen"
      "extractBaseName (st_name (bestRepresentative g)) = k"
      "\<forall>s \<in> set seen. extractBaseName (st_name s) = k \<longrightarrow>
            station_rank (bestRepresentative g) \<le> station_rank s"
      unfolding groups_invariant_def by blast+
    show ?thesis
    proof (cases "k = ?b")
      case False
      with g(2) old_best show ?thesis by auto
    next
      case True
      show ?thesis
      proof (cases "station_rank x < station_rank (bestRepresentative g)")
        case less: True
        with True g(2) have "bestRepresentative g' = x" by (simp add: add_station_best)
        with True less old_best(3) show ?thesis by fastforce
      next
        case geq: False
        with True g(2) have "bestRepresentative g' = bestRepresentative g"
          by (simp add: add_station_best)
        with True geq old_best show ?thesis by auto
      qed
    qed
  qed
  show ?thesis
    unfolding step groups_invariant_def using d keys best by blast
qed

lemma group_step_invariant:
  "groups_invariant groups seen \<Longrightarrow> groups_invariant (group_step groups x) (seen @ [x])"
  by (cases "map_of groups (extractBaseName (st_name x))")
     (auto intro: group_step_new group_step_old)

lemma foldl_group_step_invariant:
  "groups_invariant groups seen \<Longrightarrow>
     groups_invariant (foldl group_step groups sts) (seen @ sts)"
proof (induction sts arbitrary: groups seen)
  case Nil
  then show ?case by simp
next
  case (Cons x sts)
  from Cons.IH[OF group_step_invariant[OF Cons.prems, of x]] show ?case by simp
qed

lemma groups_of_input: "groups_invariant (foldl group_step [] sts) sts"
  using foldl_group_step_invariant[OF groups_invariant_Nil, of sts] by simp


section \<open>Claims about station deduplication\<close>

text \<open>
  What \<open>deduplicateStations\<close> returns on every input: records of the input, one for each
  base name of the input (the name as \<open>extractBaseName\<close> strips it).  The record
  returned for a base name has the lowest priority number among the records of that base
  name and, among those of that priority, the smallest distance.  The priority of a
  name, read in upper case, is 1 when it consists of letters, white space and hyphens
  followed by \<open>MRT\<close>, white space and \<open>STATION\<close>; else 2 when it ends in a parenthesised
  code of two letters and digits; else 3 when it ends in \<open>EXIT\<close>, white space and \<open>A\<close>;
  else 4 when it ends in \<open>EXIT\<close>, white space and another letter; else 5.  The three
  records \<open>X MRT STATION EXIT A\<close> at 0.2, \<open>X MRT STATION (CC24)\<close> at 0.05 and
  \<open>X MRT STATION EXIT B\<close> at 0.3 reduce to the record with the line code.
\<close>

lemma deduplicateStations_selection:
  "set (deduplicateStations sts) \<subseteq> set sts
   \<and> distinct (map (\<lambda>s. extractBaseName (st_name s)) (deduplicateStations sts))
   \<and> (\<lambda>s. extractBaseName (st_name s)) ` set (deduplicateStations sts)
       = (\<lambda>s. extractBaseName (st_name s)) ` set sts
   \<and> (\<forall>r \<in> set (deduplicateStations sts). \<forall>s \<in> set sts.
         extractBaseName (st_name s) = extractBaseName (st_name r) \<longrightarrow>
         getStationPriority (st_name r) < getStationPriority (st_name s)
         \<or> (getStationPriority (st_name r) = getStationPriority (st_name s)
             \<and> st_distance r \<le> st_distance s))
   \<and> (\<forall>n. getStationPriority n =
         (if main_station_name (js_toUpperCase n) then 1
          else if ends_with_line_code (js_toUpperCase n) then 2
          else if ends_with_exit_a (js_toUpperCase n) then 3
          else if ends_with_other_exit (js_toUpperCase n) then 4
          else 5))
   \<and> deduplicateStations
         [mk_station ''X MRT STATION EXIT A'' (2 / 10),
          mk_station ''X MRT STATION (CC24)'' (5 / 100),
          mk_station ''X MRT STATION EXIT B'' (3 / 10)]
       = [mk_station ''X MRT STATION (CC24)'' (5 / 100)]"
proof -
  let ?base = "\<lambda>s. extractBaseName (st_name s)"
  let ?groups = "foldl group_step [] sts"
  let ?reps = "map (\<lambda>(k, g). bestRepresentative g) ?groups"
  have inv: "groups_invariant ?groups sts" by (rule groups_of_input)
  have out: "set (deduplicateStations sts) = set ?reps"
    by (simp add: deduplicateStations_def)
  have rep: "\<exists>k g. (k, g) \<in> set ?groups \<and> r = bestRepresentative g" if "r \<in> set ?reps" for r
    using that by auto
  have from_group: "bestRepresentative g \<in> set sts \<and> ?base (bestRepresentative g) = k
      \<and> (\<forall>s \<in> set sts. ?base s = k \<longrightarrow> station_rank (bestRepresentative g) \<le> station_rank s)"
    if "(k, g) \<in> set ?groups" for k g
    using inv that unfolding groups_invariant_def by blast
  have sub: "set (deduplicateStations sts) \<subseteq> set sts"
    unfolding out using rep from_group by blast
  have base_reps: "map ?base ?reps = map fst ?groups"
    using from_group by (auto simp: map_eq_conv)
  have "distinct (map ?base (deduplicateStations sts)) = distinct (map ?base ?reps)"
    unfolding deduplicateStations_def by (rule distinct_map_sort_key)
  then have dist: "distinct (map ?base (deduplicateStations sts))"
    using inv unfolding base_reps groups_invariant_def by simp
  have "?base ` set (deduplicateStations sts) = set (map ?base ?reps)"
    unfolding out by (simp only: set_map)
  also have "\<dots> = fst ` set ?groups"
    unfolding base_reps by simp
  also have "\<dots> = ?base ` set sts"
    using inv unfolding groups_invariant_def by simp
  finally have keys: "?base ` set (deduplicateStations sts) = ?base ` set sts" .
  have least: "getStationPriority (st_name r) < getStationPriority (st_name s)
         \<or> (getStationPriority (st_name r) = getStationPriority (st_name s)
             \<and> st_distance r \<le> st_distance s)"
    if r: "r \<in> set (deduplicateStations sts)" and s: "s \<in> set sts" "?base s = ?base r" for r s
  proof -
    from r obtain k g where kg: "(k, g) \<in> set ?groups" "r = bestRepresentative g"
      unfolding out using rep by blast
    from from_group[OF kg(1)] kg(2) s have "station_rank r \<le> station_rank s" by auto
    then show ?thesis by (auto simp: station_rank_def less_eq_prod_def)
  qed
  have fixture: "deduplicateStations
         [mk_station ''X MRT STATION EXIT A'' (2 / 10),
          mk_station ''X MRT STATION (CC24)'' (5 / 100),
          mk_station ''X MRT STATION EXIT B'' (3 / 10)]
       = [mk_station ''X MRT STATION (CC24)'' (5 / 100)]"
    by code_simp
  from sub dist keys least getStationPriority_shapes fixture show ?thesis
    by (intro conjI ballI allI impI)
qed

text \<open>The names of the comment of \<open>extractBaseName\<close>, and a name of each priority.\<close>

lemma deduplicateStations_examples:
  "map st_name (deduplicateStations
       [mk_station ''KENT RIDGE MRT STATION EXIT B'' (4 / 10),
        mk_station ''ONE-NORTH MRT STATION'' (9 / 10),
        mk_station ''KENT RIDGE MRT STATION EXIT A'' (6 / 10),
        mk_station ''KENT RIDGE MRT STATION EXIT C'' (3 / 10)])
     = [''KENT RIDGE MRT STATION EXIT A'', ''ONE-NORTH MRT STATION'']
   \<and> map extractBaseName
       [''KENT RIDGE MRT STATION EXIT A'', ''BUONA VISTA MRT STATION (CC22)'',
        ''ONE-NORTH MRT STATION'']
     = [''KENT RIDGE'', ''BUONA VISTA'', ''ONE-NORTH'']
   \<and> map getStationPriority
       [''ONE-NORTH MRT STATION'', ''BUONA VISTA MRT STATION (CC22)'',
        ''KENT RIDGE MRT STATION EXIT A'', ''KENT RIDGE MRT STATION EXIT B'', ''KENT RIDGE'']
     = [1, 2, 3, 4, 5]
   \<and> set (deduplicateStations
       [mk_station ''KENT RIDGE MRT STATION EXIT B'' (4 / 10),
        mk_station ''ONE-NORTH MRT STATION'' (9 / 10),
        mk_station ''KENT RIDGE MRT STATION EXIT A'' (6 / 10),
        mk_station ''KENT RIDGE MRT STATION EXIT C'' (3 / 10)])
     \<subseteq> set [mk_station ''KENT RIDGE MRT STATION EXIT B'' (4 / 10),
        mk_station ''ONE-NORTH MRT STATION'' (9 / 10),
        mk_station ''KENT RIDGE MRT STATION EXIT A'' (6 / 10),
        mk_station ''KENT RIDGE MRT STATION EXIT C'' (3 / 10)]"
proof -
  have a: "map st_name (deduplicateStations
       [mk_station ''KENT RIDGE MRT STATION EXIT B'' (4 / 10),
        mk_station ''ONE-NORTH MRT STATION'' (9 / 10),
        mk_station ''KENT RIDGE MRT STATION EXIT A'' (6 / 10),
        mk_station ''KENT RIDGE MRT STATION EXIT C'' (3 / 10)])
     = [''KENT RIDGE MRT STATION EXIT A'', ''ONE-NORTH MRT STATION'']"
    by code_simp
  have b: "map extractBaseName
       [''KENT RIDGE MRT STATION EXIT A'', ''BUONA VISTA MRT STATION (CC22)'',
        ''ONE-NORTH MRT STATION'']
     = [''KENT RIDGE'', ''BUONA VISTA'', ''ONE-NORTH'']"
    by code_simp
  have c: "map getStationPriority
       [''ONE-NORTH MRT STATION'', ''BUONA VISTA MRT STATION (CC22)'',
        ''KENT RIDGE MRT STATION EXIT A'', ''KENT RIDGE MRT STATION EXIT B'', ''KENT RIDGE'']
     = [1, 2, 3, 4, 5]"
    by code_simp
  from deduplicateStations_selection[of
       "[mk_station ''KENT RIDGE MRT STATION EXIT B'' (4 / 10),
        mk_station ''ONE-NORTH MRT STATION'' (9 / 10),
        mk_station ''KENT RIDGE MRT STATION EXIT A'' (6 / 10),
        mk_station ''KENT RIDGE MRT STATION EXIT C'' (3 / 10)]"]
  have d: "set (deduplicateStations
       [mk_station ''KENT RIDGE MRT STATION EXIT B'' (4 / 10),
        mk_station ''ONE-NORTH MRT STATION'' (9 / 10),
        mk_station ''KENT RIDGE MRT STATION EXIT A'' (6 / 10),
        mk_station ''KENT RIDGE MRT STATION EXIT C'' (3 / 10)])
     \<subseteq> set [mk_station ''KENT RIDGE MRT STATION EXIT B'' (4 / 10),
        mk_station ''ONE-NORTH MRT STATION'' (9 / 10),
        mk_station ''KENT RIDGE MRT STATION EXIT A'' (6 / 10),
        mk_station ''KENT RIDGE MRT STATION EXIT C'' (3 / 10)]"
    by (rule conjunct1)
  from a b c d show ?thesis by (intro conjI)
qed

text \<open>
  Claim C5, at the two records \<open>X2 MRT STATION\<close>, at distance 0.1, and
  \<open>X2 MRT STATION EXIT B\<close>, at distance 0.3.  Both have the base name \<open>X2\<close>, and the
  first is the name of the station with no suffix: the claim gives it priority 1, as
  does the comment of \<open>getStationPriority\<close> (main station, no suffix, highest priority),
  and it is the representative of the group.  The pattern of the code for priority 1
  admits only letters, white space and hyphens before \<open>MRT\<close>: the code gives the name
  with the digit priority 5 and returns the record of exit B, of priority 4.
\<close>

theorem deduplicateStations_bare_name_with_digit:
  "extractBaseName ''X2 MRT STATION'' = ''X2''
   \<and> extractBaseName ''X2 MRT STATION EXIT B'' = ''X2''
   \<and> getStationPriority ''X2 MRT STATION'' = 5
   \<and> getStationPriority ''X2 MRT STATION EXIT B'' = 4
   \<and> getStationPriority ''X MRT STATION'' = 1
   \<and> deduplicateStations
       [mk_station ''X2 MRT STATION'' (1 / 10), mk_station ''X2 MRT STATION EXIT B'' (3 / 10)]
     = [mk_station ''X2 MRT STATION EXIT B'' (3 / 10)]
   \<and> deduplicateStations
       [mk_station ''X MRT STATION'' (1 / 10), mk_station ''X MRT STATION EXIT B'' (3 / 10)]
     = [mk_station ''X MRT STATION'' (1 / 10)]"
  by code_simp

section \<open>Claims about the diversity score\<close>

lemma foldl_entropy_sum:
  "foldl (\<lambda>sum p. if 0 < p then sum + p * ln p else sum) a ps
     = a + (\<Sum>p\<leftarrow>ps. if 0 < p then p * ln p else (0::real))"
  by (induction ps arbitrary: a) auto

lemma ln_categories_positive: "n \<noteq> 0 \<and> 0 < ln (real n) \<longleftrightarrow> 1 < n"
proof (cases "n = 0")
  case True
  then show ?thesis by simp
next
  case False
  then have "0 < real n" by simp
  then have "0 < ln (real n) \<longleftrightarrow> 1 < real n" by (rule ln_gt_zero_iff)
  with False show ?thesis by simp
qed

lemma diversity_is_normalized_entropy:
  "calculateDiversityScore landUseMix =
     (if 1 < length landUseMix
      then shannon_entropy (map (\<lambda>(k, stats). real_of_int (percentage stats) / 100) landUseMix)
             / ln (real (length landUseMix))
      else 0)"
  using ln_categories_positive[of "length landUseMix"]
  by (simp add: calculateDiversityScore_def Let_def foldl_entropy_sum shannon_entropy_def)

lemma diversity_single:
  "calculateDiversityScore [(k, \<lparr> use_count = c, percentage = 100 \<rparr>)] = 0"
  by (simp add: diversity_is_normalized_entropy)

lemma diversity_even_four:
  "calculateDiversityScore
     [(k1, \<lparr> use_count = c1, percentage = 25 \<rparr>), (k2, \<lparr> use_count = c2, percentage = 25 \<rparr>),
      (k3, \<lparr> use_count = c3, percentage = 25 \<rparr>), (k4, \<lparr> use_count = c4, percentage = 25 \<rparr>)]
     = 1"
proof -
  have l: "ln (1 / 4 :: real) = - ln 4"
    by (simp add: ln_div)
  have p: "0 < ln (4::real)"
    by simp
  show ?thesis
    using p by (simp add: diversity_is_normalized_entropy shannon_entropy_def l)
qed

text \<open>
  Claim C9, over the real numbers.  \<open>calculateDiversityScore\<close> is the Shannon entropy of
  the percentages taken as proportions, divided by the logarithm of the number of
  categories, and 0 when there are fewer than two categories.  One category at 100 gives
  0; four categories at 25 each give 1.
\<close>

theorem calculateDiversityScore_normalized_entropy:
  "calculateDiversityScore landUseMix =
     (if 1 < length landUseMix
      then shannon_entropy (map (\<lambda>(k, stats). real_of_int (percentage stats) / 100) landUseMix)
             / ln (real (length landUseMix))
      else 0)
   \<and> calculateDiversityScore [(k, \<lparr> use_count = c, percentage = 100 \<rparr>)] = 0
   \<and> calculateDiversityScore
       [(k1, \<lparr> use_count = c1, percentage = 25 \<rparr>), (k2, \<lparr> use_count = c2, percentage = 25 \<rparr>),
        (k3, \<lparr> use_count = c3, percentage = 25 \<rparr>), (k4, \<lparr> use_count = c4, percentage = 25 \<rparr>)]
       = 1"
  by (intro conjI diversity_is_normalized_entropy diversity_single diversity_even_four)

text \<open>Four zones of four land uses, and one zone alone.\<close>

theorem calculateDiversityScore_normalized_entropy_witness:
  "analyzeLandUseMix
     [mk_zone ''1'' ''RESIDENTIAL'', mk_zone ''2'' ''COMMERCIAL'', mk_zone ''3'' ''ROAD'',
      mk_zone ''4'' ''OPEN SPACE'']
     = [(''RESIDENTIAL'', \<lparr> use_count = 1, percentage = 25 \<rparr>),
        (''COMMERCIAL'', \<lparr> use_count = 1, percentage = 25 \<rparr>),
        (''ROAD'', \<lparr> use_count = 1, percentage = 25 \<rparr>),
        (''OPEN SPACE'', \<lparr> use_count = 1, percentage = 25 \<rparr>)]
   \<and> calculateDiversityScore (analyzeLandUseMix
       [mk_zone ''1'' ''RESIDENTIAL'', mk_zone ''2'' ''COMMERCIAL'', mk_zone ''3'' ''ROAD'',
        mk_zone ''4'' ''OPEN SPACE'']) = 1
   \<and> calculateDiversityScore (analyzeLandUseMix [mk_zone ''1'' ''RESIDENTIAL'']) = 0"
proof -
  have four: "analyzeLandUseMix
     [mk_zone ''1'' ''RESIDENTIAL'', mk_zone ''2'' ''COMMERCIAL'', mk_zone ''3'' ''ROAD'',
      mk_zone ''4'' ''OPEN SPACE'']
     = [(''RESIDENTIAL'', \<lparr> use_count = 1, percentage = 25 \<rparr>),
        (''COMMERCIAL'', \<lparr> use_count = 1, percentage = 25 \<rparr>),
        (''ROAD'', \<lparr> use_count = 1, percentage = 25 \<rparr>),
        (''OPEN SPACE'', \<lparr> use_count = 1, percentage = 25 \<rparr>)]"
    by (simp add: analyzeLandUseMix_def count_step_def mk_zone_def js_round_def Let_def)
  have one: "analyzeLandUseMix [mk_zone ''1'' ''RESIDENTIAL'']
     = [(''RESIDENTIAL'', \<lparr> use_count = 1, percentage = 100 \<rparr>)]"
    by (simp add: analyzeLandUseMix_def count_step_def mk_zone_def js_round_def Let_def)
  from calculateDiversityScore_normalized_entropy[of _ "''RESIDENTIAL''" 1 "''RESIDENTIAL''" 1
      "''COMMERCIAL''" 1 "''ROAD''" 1 "''OPEN SPACE''" 1]
  show ?thesis
    unfolding four one by blast
qed


section \<open>Claims about batch routing\<close>

lemma run_batch_results:
  "fst (run_batch calc i batch c) = map (\<lambda>(k, d). route_outcome calc k d) (enumerate i batch)"
  by (simp add: run_batch_def Let_def)

lemma enumerate_batches:
  "enumerate i xs = enumerate i (take 3 xs) @ enumerate (i + 3) (drop 3 xs)"
proof (cases "3 \<le> length xs")
  case True
  then have "length (take 3 xs) = 3" by simp
  with enumerate_append_eq[of i "take 3 xs" "drop 3 xs"] show ?thesis by simp
next
  case False
  then show ?thesis by simp
qed

lemma batch_loop_results:
  "fst (batch_loop calc ds i c res waits)
     = res @ map (\<lambda>(k, d). route_outcome calc k d) (enumerate i (drop i ds))"
proof (induction calc ds i c res waits rule: batch_loop.induct)
  case (1 calc ds i c res waits)
  show ?case
  proof (cases "i < length ds")
    case False
    then show ?thesis by (simp add: batch_loop.simps[of calc ds i])
  next
    case True
    obtain batchResults consecutive finalDelay
      where rb: "run_batch calc i (take 3 (drop i ds)) c = (batchResults, consecutive, finalDelay)"
      by (cases "run_batch calc i (take 3 (drop i ds)) c") auto
    have br: "batchResults
        = map (\<lambda>(k, d). route_outcome calc k d) (enumerate i (take 3 (drop i ds)))"
      using run_batch_results[of calc i "take 3 (drop i ds)" c] rb by simp
    have tail: "drop (i + 3) ds = drop 3 (drop i ds)"
      by (simp add: add.commute)
    have "fst (batch_loop calc ds i c res waits)
        = fst (batch_loop calc ds (i + 3) consecutive (res @ batchResults)
               (if i + 3 < length ds then waits @ [finalDelay] else waits))"
      using True rb by (simp add: batch_loop.simps[of calc ds i])
    also have "\<dots> = (res @ batchResults)
        @ map (\<lambda>(k, d). route_outcome calc k d) (enumerate (i + 3) (drop (i + 3) ds))"
      by (rule "1.IH"[OF True rb[symmetric] refl])
    also have "\<dots> = res @ map (\<lambda>(k, d). route_outcome calc k d)
        (enumerate i (take 3 (drop i ds)) @ enumerate (i + 3) (drop 3 (drop i ds)))"
      unfolding br tail by simp
    also have "\<dots> = res @ map (\<lambda>(k, d). route_outcome calc k d) (enumerate i (drop i ds))"
      using enumerate_batches[of i "drop i ds"] by simp
    finally show ?thesis .
  qed
qed

lemma batchCalculateRoutes_eq:
  "batchCalculateRoutes calc ds = map (\<lambda>(k, d). route_outcome calc k d) (enumerate 0 ds)"
  by (simp add: batchCalculateRoutes_def batch_loop_results)

lemma route_outcome_shape:
  "destination (route_outcome calc k d) = dest_name d
   \<and> ((route_result (route_outcome calc k d) \<noteq> None \<and> error (route_outcome calc k d) = None)
      \<or> (route_result (route_outcome calc k d) = None \<and> error (route_outcome calc k d) \<noteq> None))"
  by (simp add: route_outcome_def split: sum.splits)

lemma batch_nth:
  "k < length ds \<Longrightarrow> batchCalculateRoutes calc ds ! k = route_outcome calc k (ds ! k)"
  by (simp add: batchCalculateRoutes_eq nth_enumerate_eq)

lemma batch_destinations:
  "map destination (batchCalculateRoutes calc ds) = map dest_name ds"
proof -
  have "destination \<circ> (\<lambda>(k, d). route_outcome calc k d) = dest_name \<circ> snd"
    by (rule ext) (simp add: route_outcome_shape split: prod.splits)
  then have "map destination (batchCalculateRoutes calc ds)
      = map (dest_name \<circ> snd) (enumerate 0 ds)"
    by (simp add: batchCalculateRoutes_eq)
  also have "\<dots> = map dest_name (map snd (enumerate 0 ds))"
    by (simp only: map_map)
  finally show ?thesis by simp
qed

text \<open>
  Claim C4.  For every list of destinations and every behaviour of the routing service,
  \<open>batchCalculateRoutes\<close> returns one outcome for each destination, in the order of the
  list and under the destination's name; the outcome at a position is the outcome of
  that destination's own attempts, either a route result without an error or an error
  without a route result, and it is the same whatever the service answers for the other
  destinations.
\<close>

theorem batchCalculateRoutes_one_outcome_each:
  "length (batchCalculateRoutes calc ds) = length ds
   \<and> map destination (batchCalculateRoutes calc ds) = map dest_name ds
   \<and> (\<forall>k < length ds. batchCalculateRoutes calc ds ! k = route_outcome calc k (ds ! k))
   \<and> (\<forall>out \<in> set (batchCalculateRoutes calc ds).
         (route_result out \<noteq> None \<and> error out = None)
         \<or> (route_result out = None \<and> error out \<noteq> None))
   \<and> (\<forall>k < length ds. \<forall>calc'. calc' k (ds ! k) = calc k (ds ! k) \<longrightarrow>
         batchCalculateRoutes calc' ds ! k = batchCalculateRoutes calc ds ! k)"
proof (intro conjI allI impI ballI)
  show "length (batchCalculateRoutes calc ds) = length ds"
    by (simp add: batchCalculateRoutes_eq)
  show "map destination (batchCalculateRoutes calc ds) = map dest_name ds"
    by (rule batch_destinations)
  show "batchCalculateRoutes calc ds ! k = route_outcome calc k (ds ! k)" if "k < length ds" for k
    using that by (rule batch_nth)
  show "(route_result out \<noteq> None \<and> error out = None)
         \<or> (route_result out = None \<and> error out \<noteq> None)"
    if "out \<in> set (batchCalculateRoutes calc ds)" for out
  proof -
    from that obtain k d where "out = route_outcome calc k d"
      unfolding batchCalculateRoutes_eq by auto
    then show ?thesis using route_outcome_shape[of calc k d] by simp
  qed
  show "batchCalculateRoutes calc' ds ! k = batchCalculateRoutes calc ds ! k"
    if "k < length ds" "calc' k (ds ! k) = calc k (ds ! k)" for k calc'
    using that by (simp add: batch_nth route_outcome_def)
qed

text \<open>
  Nine destinations, the first two of them rate limited at every attempt: nine outcomes,
  seven with a route and two with the error, and a first wait above the base of 2000.
\<close>

theorem batchCalculateRoutes_one_outcome_each_witness:
  "length (batchCalculateRoutes two_rate_limited
      (map mk_destination [''a'', ''b'', ''c'', ''d'', ''e'', ''f'', ''g'', ''h'', ''i''])) = 9
   \<and> map (\<lambda>out. (destination out, route_result out))
       (batchCalculateRoutes two_rate_limited
         (map mk_destination [''a'', ''b'', ''c'', ''d'', ''e'', ''f'', ''g'', ''h'', ''i'']))
     = [(''a'', None), (''b'', None), (''c'', Some 600), (''d'', Some 600), (''e'', Some 600),
        (''f'', Some 600), (''g'', Some 600), (''h'', Some 600), (''i'', Some 600)]
   \<and> map error (take 2 (batchCalculateRoutes two_rate_limited
         (map mk_destination [''a'', ''b'', ''c'', ''d'', ''e'', ''f'', ''g'', ''h'', ''i''])))
     = [Some ''Failed to calculate route: Too Many Requests (429)'',
        Some ''Failed to calculate route: Too Many Requests (429)'']
   \<and> batch_waits two_rate_limited
         (map mk_destination [''a'', ''b'', ''c'', ''d'', ''e'', ''f'', ''g'', ''h'', ''i''])
     = [7000, 2000]"
proof -
  let ?ds = "map mk_destination [''a'', ''b'', ''c'', ''d'', ''e'', ''f'', ''g'', ''h'', ''i'']"
  from batchCalculateRoutes_one_outcome_each[of two_rate_limited ?ds]
  have "length (batchCalculateRoutes two_rate_limited ?ds) = length ?ds"
    by (rule conjunct1)
  then have n: "length (batchCalculateRoutes two_rate_limited ?ds) = 9"
    by simp
  have r: "map (\<lambda>out. (destination out, route_result out))
       (batchCalculateRoutes two_rate_limited ?ds)
     = [(''a'', None), (''b'', None), (''c'', Some 600), (''d'', Some 600), (''e'', Some 600),
        (''f'', Some 600), (''g'', Some 600), (''h'', Some 600), (''i'', Some 600)]"
    by code_simp
  have e: "map error (take 2 (batchCalculateRoutes two_rate_limited ?ds))
     = [Some ''Failed to calculate route: Too Many Requests (429)'',
        Some ''Failed to calculate route: Too Many Requests (429)'']"
    by code_simp
  have w: "batch_waits two_rate_limited ?ds = [7000, 2000]"
    by code_simp
  from n r e w show ?thesis by (intro conjI)
qed


end
